theory Spec2Isabelle
  imports Complex_Main "HOL-Library.Word"
begin

section \<open>JavaScript strings\<close>

text \<open>
  A JavaScript string is a sequence of UTF-16 code units. The regular expressions of
  \<^verbatim>\<open>formatContent\<close> carry no \<^verbatim>\<open>u\<close> flag and \<^verbatim>\<open>String.prototype.trim\<close> works on
  code units as well, so a string is modelled as a list of 16-bit words. ASCII literals
  are written through \<open>js\<close>; the Korean and Chinese literals of the source are given by
  their code units.
\<close>

type_synonym jschar = "16 word"
type_synonym jsstring = "jschar list"

definition js :: "string \<Rightarrow> jsstring" where
  "js s = map of_char s"

text \<open>ECMAScript \<^verbatim>\<open>LineTerminator\<close>: LF, CR, LS, PS.\<close>

definition is_line_terminator :: "jschar \<Rightarrow> bool" where
  "is_line_terminator c = (c = 0x0A \<or> c = 0x0D \<or> c = 0x2028 \<or> c = 0x2029)"

text \<open>ECMAScript \<^verbatim>\<open>WhiteSpace\<close>: TAB, VT, FF, SP, NBSP, ZWNBSP and the category Zs.\<close>

definition is_white_space :: "jschar \<Rightarrow> bool" where
  "is_white_space c =
     (c = 0x09 \<or> c = 0x0B \<or> c = 0x0C \<or> c = 0x20 \<or> c = 0xA0 \<or> c = 0x1680
      \<or> (0x2000 \<le> c \<and> c \<le> 0x200A) \<or> c = 0x202F \<or> c = 0x205F \<or> c = 0x3000
      \<or> c = 0xFEFF)"

text \<open>What \<^verbatim>\<open>\s\<close> matches and what \<^verbatim>\<open>trim\<close> strips: white space and line terminators.\<close>

definition is_space :: "jschar \<Rightarrow> bool" where
  "is_space c = (is_white_space c \<or> is_line_terminator c)"

definition trim :: "jsstring \<Rightarrow> jsstring" where
  "trim s = rev (dropWhile is_space (rev (dropWhile is_space s)))"

text \<open>\<^verbatim>\<open>s.startsWith(p)\<close> and \<^verbatim>\<open>s.includes(p)\<close>.\<close>

definition starts_with :: "jsstring \<Rightarrow> jsstring \<Rightarrow> bool" where
  "starts_with s p = (take (length p) s = p)"

fun js_includes :: "jsstring \<Rightarrow> jsstring \<Rightarrow> bool" where
  "js_includes [] p = (p = [])"
| "js_includes (c # cs) p = (starts_with (c # cs) p \<or> js_includes cs p)"

text \<open>The decimal digits of a non-negative integer, as a template literal prints it.\<close>

fun digits :: "nat \<Rightarrow> jsstring" where
  "digits n =
     (if n < 10 then [of_nat (48 + n)]
      else digits (n div 10) @ [of_nat (48 + n mod 10)])"

declare digits.simps [simp del]

section \<open>Types (\<^verbatim>\<open>@/types\<close>)\<close>

text \<open>
  \<^verbatim>\<open>UserPreferences\<close> has the three keys \<^verbatim>\<open>translation_kr\<close>, \<^verbatim>\<open>translation_en\<close> and
  \<^verbatim>\<open>denomination\<close>. The object is modelled as the function from its keys to their
  values, so that the spread with a computed key of \<^verbatim>\<open>SettingsPanel.update\<close> is a
  function update. \<^verbatim>\<open>update\<close> takes \<^verbatim>\<open>value: string | null\<close> for every key, so every
  value is a \<open>jsstring option\<close>, \<open>None\<close> being \<^verbatim>\<open>null\<close>.
\<close>

datatype pref_key = Translation_kr | Translation_en | Denomination

type_synonym UserPreferences = "pref_key \<Rightarrow> jsstring option"

text \<open>
  The string-literal union \<^verbatim>\<open>"user" | "assistant"\<close>; the page sets the role itself.
\<close>

datatype role = User | Assistant

text \<open>
  The two literals of the declared type \<^verbatim>\<open>"rag" | "conversational"\<close> of
  \<^verbatim>\<open>retrieval_mode\<close>. The value comes out of \<^verbatim>\<open>response.json()\<close> and nothing
  checks it at run time, so the field is a string.
\<close>

definition rag :: jsstring where
  "rag = js ''rag''"

definition conversational :: jsstring where
  "conversational = js ''conversational''"

type_synonym Date = nat

text \<open>
  \<^verbatim>\<open>interface Source\<close>. The fields \<^verbatim>\<open>text\<close> and \<^verbatim>\<open>chapter\<close> are named
  \<open>source_text\<close> and \<open>chapter_number\<close> (both words are keywords); the numbers are only
  carried, never computed with.
\<close>

record Source =
  source_text :: jsstring
  reference :: jsstring
  reference_kr :: jsstring
  translation :: jsstring
  book :: jsstring
  book_kr :: jsstring
  chapter_number :: int
  verse :: int
  similarity :: "real option"

text \<open>
  \<^verbatim>\<open>interface Message\<close>; \<^verbatim>\<open>id\<close> is named \<open>message_id\<close>. The optional fields
  \<^verbatim>\<open>sources?\<close> and \<^verbatim>\<open>retrieval_mode?\<close> are \<open>None\<close> when absent.
\<close>

record Message =
  message_id :: jsstring
  role :: role
  content :: jsstring
  timestamp :: Date
  sources :: "Source list option"
  retrieval_mode :: "jsstring option"

section \<open>The API client (\<^verbatim>\<open>lib/api.ts\<close>)\<close>

text \<open>\<^verbatim>\<open>interface ChatRequest\<close>; \<^verbatim>\<open>session_id: string | null\<close>.\<close>

record ChatRequest =
  message :: jsstring
  session_id :: "jsstring option"
  req_preferences :: UserPreferences

record Usage =
  input_tokens :: nat
  output_tokens :: nat

text \<open>
  \<^verbatim>\<open>interface ChatResponse\<close>. The fields that share a name with a field of
  \<^verbatim>\<open>ChatRequest\<close> or \<^verbatim>\<open>Message\<close> carry the prefix \<open>res_\<close>.
\<close>

record ChatResponse =
  response :: jsstring
  res_session_id :: jsstring
  language :: jsstring
  res_sources :: "Source list"
  res_retrieval_mode :: jsstring
  model :: jsstring
  usage :: Usage

text \<open>
  What a \<^verbatim>\<open>throw\<close> or a rejected promise carries. \<^verbatim>\<open>TypeError\<close> (a failed
  \<^verbatim>\<open>fetch\<close>) and \<^verbatim>\<open>SyntaxError\<close> (a body that is not JSON) are instances of
  \<^verbatim>\<open>Error\<close>; \<open>NonError\<close> is any thrown value that is not.
\<close>

datatype thrown = Error jsstring | TypeError jsstring | SyntaxError jsstring | NonError

fun instanceof_Error :: "thrown \<Rightarrow> bool" where
  "instanceof_Error NonError = False"
| "instanceof_Error _ = True"

fun err_message :: "thrown \<Rightarrow> jsstring" where
  "err_message (Error m) = m"
| "err_message (TypeError m) = m"
| "err_message (SyntaxError m) = m"
| "err_message NonError = []"

text \<open>
  The arguments of a \<^verbatim>\<open>fetch\<close> call and the \<^verbatim>\<open>Response\<close> it resolves to. The request
  body is the payload itself, standing for its \<^verbatim>\<open>JSON.stringify\<close>; a response holds
  what \<^verbatim>\<open>response.text()\<close> and \<^verbatim>\<open>response.json()\<close> resolve to, the latter possibly a
  rejection. \<^verbatim>\<open>fetch\<close> itself is a parameter of the functions below: the network and
  the server answer with a response (of any status) or reject.
\<close>

datatype http_method = GET | POST | DELETE

record FetchArgs =
  url :: jsstring
  http_method :: http_method
  headers :: "(jsstring \<times> jsstring) list"
  body :: "ChatRequest option"

record Response =
  ok :: bool
  status :: nat
  body_text :: jsstring
  body_json :: "thrown + ChatResponse"

type_synonym fetch = "FetchArgs \<Rightarrow> thrown + Response"

definition API_BASE :: jsstring where
  "API_BASE = js ''http://localhost:8000/api''"

definition chat_args :: "ChatRequest \<Rightarrow> FetchArgs" where
  "chat_args payload =
     \<lparr>url = API_BASE @ js ''/chat'', http_method = POST,
      headers = [(js ''Content-Type'', js ''application/json'')], body = Some payload\<rparr>"

definition sendMessage :: "fetch \<Rightarrow> ChatRequest \<Rightarrow> thrown + ChatResponse" where
  "sendMessage fetch payload =
     (case fetch (chat_args payload) of
        Inl e \<Rightarrow> Inl e
      | Inr res \<Rightarrow>
          if \<not> ok res
          then Inl (Error (js ''Server error '' @ digits (status res) @ js '': ''
                           @ body_text res))
          else body_json res)"

definition session_args :: "jsstring \<Rightarrow> FetchArgs" where
  "session_args sessionId =
     \<lparr>url = API_BASE @ js ''/session/'' @ sessionId, http_method = DELETE,
      headers = [], body = None\<rparr>"

definition clearSession :: "fetch \<Rightarrow> jsstring \<Rightarrow> thrown + unit" where
  "clearSession fetch sessionId =
     (case fetch (session_args sessionId) of Inl e \<Rightarrow> Inl e | Inr res \<Rightarrow> Inr ())"

section \<open>Message formatting (\<^verbatim>\<open>components/ChatMessage.tsx\<close>)\<close>

text \<open>
  \<^verbatim>\<open>String.prototype.replace\<close> with a global regular expression: the matcher \<open>m\<close> is
  tried at every position from left to right; it returns the replacement and the
  number of code units matched. Text between matches is copied. After an empty match
  the search moves on by one code unit, which is copied.
\<close>

function gsub :: "(jsstring \<Rightarrow> (jsstring \<times> nat) option) \<Rightarrow> jsstring \<Rightarrow> jsstring" where
  "gsub m s =
     (case m s of
        None \<Rightarrow> (case s of [] \<Rightarrow> [] | c # cs \<Rightarrow> c # gsub m cs)
      | Some (r, k) \<Rightarrow>
          if k = 0 \<or> s = [] then r @ (case s of [] \<Rightarrow> [] | c # cs \<Rightarrow> c # gsub m cs)
          else r @ gsub m (drop k s))"
  by pat_completeness auto
termination
  by (relation "measure (\<lambda>(m, s). length s)") auto

declare gsub.simps [simp del]

text \<open>
  \<^verbatim>\<open>/\*\*(.*?)\*\*/g\<close>. After the opening \<^verbatim>\<open>**\<close> the lazy \<^verbatim>\<open>.*?\<close> takes the fewest
  code units, none of them a line terminator, that bring it to a closing \<^verbatim>\<open>**\<close>;
  \<open>close_bold\<close> returns that group.
\<close>

definition stars :: jsstring where
  "stars = [0x2A, 0x2A]"

fun close_bold :: "jsstring \<Rightarrow> jsstring option" where
  "close_bold [] = None"
| "close_bold (c # cs) =
     (if starts_with (c # cs) stars then Some []
      else if is_line_terminator c then None
      else map_option ((#) c) (close_bold cs))"

definition strong_open :: jsstring where
  "strong_open = js ''<strong class=\"text-gold-300\">''"

definition strong_close :: jsstring where
  "strong_close = js ''</strong>''"

definition match_bold :: "jsstring \<Rightarrow> (jsstring \<times> nat) option" where
  "match_bold s =
     (if starts_with s stars
      then (case close_bold (drop 2 s) of
              None \<Rightarrow> None
            | Some g \<Rightarrow> Some (strong_open @ g @ strong_close, 4 + length g))
      else None)"

text \<open>
  \<^verbatim>\<open>/\[(Bible|BIAOBU),\s*([^\]]+)\]/g\<close>, where \<^verbatim>\<open>BIAOBU\<close> stands for the two code units
  U+6807 U+6B65 of the source. The greedy \<^verbatim>\<open>\s*\<close> takes all the white space \<open>ws\<close>
  after the comma and the greedy \<^verbatim>\<open>[^\]]+\<close> everything up to the next \<^verbatim>\<open>]\<close>. With no
  \<^verbatim>\<open>]\<close> ahead there is no match. When \<^verbatim>\<open>]\<close> follows the white space at once,
  backtracking hands the last white-space code unit to the second group; without white
  space there is no match.
\<close>

definition bible :: jsstring where
  "bible = js ''Bible''"

definition biaobu :: jsstring where
  "biaobu = [0x6807, 0x6B65]"

definition rbracket :: jschar where
  "rbracket = 0x5D"

definition span_open :: jsstring where
  "span_open = js ''<span class=\"text-gold-300 font-medium\">''"

definition span_close :: jsstring where
  "span_close = js ''</span>''"

definition cite_replacement :: "jsstring \<Rightarrow> jsstring \<Rightarrow> jsstring" where
  "cite_replacement g1 g2 = span_open @ js ''['' @ g1 @ js '', '' @ g2 @ js '']'' @ span_close"

text \<open>The alternation \<^verbatim>\<open>(Bible|BIAOBU)\<close>: the first group.\<close>

definition cite_name :: "jsstring \<Rightarrow> jsstring option" where
  "cite_name s =
     (if starts_with s bible then Some bible
      else if starts_with s biaobu then Some biaobu
      else None)"

text \<open>
  \<^verbatim>\<open>\s*([^\]]+)\]\<close> on the text \<open>s\<close> after the comma, \<open>g1\<close> being the first group: the
  replacement and the length of the whole match.
\<close>

definition cite_tail :: "jsstring \<Rightarrow> jsstring \<Rightarrow> (jsstring \<times> nat) option" where
  "cite_tail g1 s =
     (let ws = takeWhile is_space s;
          s' = dropWhile is_space s;
          g2 = takeWhile (\<lambda>c. c \<noteq> rbracket) s';
          s'' = dropWhile (\<lambda>c. c \<noteq> rbracket) s'
      in
        if s'' = [] then None
        else if g2 \<noteq> [] then
          Some (cite_replacement g1 g2, length g1 + length ws + length g2 + 3)
        else if ws = [] then None
        else Some (cite_replacement g1 [last ws], length g1 + length ws + 3))"

definition match_cite :: "jsstring \<Rightarrow> (jsstring \<times> nat) option" where
  "match_cite s =
     (if \<not> starts_with s (js ''['') then None
      else
        (case cite_name (drop 1 s) of
           None \<Rightarrow> None
         | Some g1 \<Rightarrow>
             let s2 = drop (length g1) (drop 1 s) in
             if \<not> starts_with s2 (js '','') then None
             else cite_tail g1 (drop 1 s2)))"

definition formatContent :: "jsstring \<Rightarrow> jsstring" where
  "formatContent text = gsub match_cite (gsub match_bold text)"

text \<open>
  The text \<open>s\<close> holds a fragment that opens with \<open>opening\<close> and closes, later on, with
  \<open>closing\<close>: a \<^verbatim>\<open>**...**\<close> pair, or a bracket fragment \<^verbatim>\<open>[Bible, ...]\<close>.
  \<open>find_fragment\<close> searches for one from left to right.
\<close>

definition has_fragment :: "jsstring \<Rightarrow> jsstring \<Rightarrow> jsstring \<Rightarrow> bool" where
  "has_fragment opening closing s = (\<exists>a b c. s = a @ opening @ b @ closing @ c)"

fun find_fragment :: "jsstring \<Rightarrow> jsstring \<Rightarrow> jsstring \<Rightarrow> bool" where
  "find_fragment opening closing [] = (opening = [] \<and> closing = [])"
| "find_fragment opening closing (c # cs) =
     ((starts_with (c # cs) opening \<and> js_includes (drop (length opening) (c # cs)) closing)
      \<or> find_fragment opening closing cs)"

text \<open>
  \<open>replaces frag s t\<close>: the text \<open>t\<close> is the text \<open>s\<close> in which some fragments \<open>f\<close> have
  been replaced by \<open>r\<close>, where \<open>frag f r\<close>, and every code unit outside those fragments
  has been copied, in order.
\<close>

inductive replaces :: "(jsstring \<Rightarrow> jsstring \<Rightarrow> bool) \<Rightarrow> jsstring \<Rightarrow> jsstring \<Rightarrow> bool"
  for frag :: "jsstring \<Rightarrow> jsstring \<Rightarrow> bool" where
  keep_end: "replaces frag [] []"
| keep_unit: "replaces frag s t \<Longrightarrow> replaces frag (c # s) (c # t)"
| replace_fragment: "frag f r \<Longrightarrow> replaces frag s t \<Longrightarrow> replaces frag (f @ s) (r @ t)"

text \<open>
  A fragment \<^verbatim>\<open>**g**\<close> and its replacement; a fragment \<^verbatim>\<open>[Bible,ws g2]\<close> (or with the
  other name), \<open>ws\<close> white space and \<open>g2\<close> non-empty and free of \<^verbatim>\<open>]\<close>, and its
  replacement.
\<close>

definition bold_fragment :: "jsstring \<Rightarrow> jsstring \<Rightarrow> bool" where
  "bold_fragment f r = (\<exists>g. f = stars @ g @ stars \<and> r = strong_open @ g @ strong_close)"

definition cite_fragment :: "jsstring \<Rightarrow> jsstring \<Rightarrow> bool" where
  "cite_fragment f r =
     (\<exists>g1 ws g2. (g1 = bible \<or> g1 = biaobu)
        \<and> f = js ''['' @ g1 @ js '','' @ ws @ g2 @ js '']''
        \<and> r = cite_replacement g1 g2
        \<and> list_all is_space ws \<and> g2 \<noteq> [] \<and> rbracket \<notin> set g2)"

text \<open>
  What \<^verbatim>\<open>ChatMessage\<close> renders: the user's bubble with the content as text, or the
  assistant's bubble with the formatted content as HTML and, when
  \<^verbatim>\<open>message.sources && message.sources.length > 0\<close>, the list of source chips
  \<^verbatim>\<open>{s.reference} ({s.translation})\<close>.
\<close>

datatype message_view = UserBubble jsstring | BotBubble jsstring "jsstring list option"

definition source_chip :: "Source \<Rightarrow> jsstring" where
  "source_chip s = reference s @ js '' ('' @ translation s @ js '')''"

definition ChatMessage :: "Message \<Rightarrow> message_view" where
  "ChatMessage m =
     (if role m = User then UserBubble (content m)
      else BotBubble (formatContent (content m))
             (case sources m of
                None \<Rightarrow> None
              | Some ss \<Rightarrow> if length ss > 0 then Some (map source_chip ss) else None))"

section \<open>The settings panel\<close>

text \<open>
  \<^verbatim>\<open>const update = (key, value) => { onChange({ ...preferences, [key]: value }); }\<close>:
  the object handed to \<^verbatim>\<open>onChange\<close>.
\<close>

definition update :: "UserPreferences \<Rightarrow> pref_key \<Rightarrow> jsstring option \<Rightarrow> UserPreferences" where
  "update preferences key v = preferences(key := v)"

text \<open>\<^verbatim>\<open>e.target.value || null\<close>: the empty string is the only falsy string.\<close>

definition or_null :: "jsstring \<Rightarrow> jsstring option" where
  "or_null v = (if v = [] then None else Some v)"

text \<open>The \<^verbatim>\<open>onChange\<close> handlers of the three \<^verbatim>\<open>select\<close> elements, \<open>v\<close> being \<^verbatim>\<open>e.target.value\<close>.\<close>

definition select_translation_kr :: "UserPreferences \<Rightarrow> jsstring \<Rightarrow> UserPreferences" where
  "select_translation_kr preferences v = update preferences Translation_kr (Some v)"

definition select_translation_en :: "UserPreferences \<Rightarrow> jsstring \<Rightarrow> UserPreferences" where
  "select_translation_en preferences v = update preferences Translation_en (Some v)"

definition select_denomination :: "UserPreferences \<Rightarrow> jsstring \<Rightarrow> UserPreferences" where
  "select_denomination preferences v = update preferences Denomination (or_null v)"

section \<open>The page (\<^verbatim>\<open>app/page.tsx\<close>)\<close>

text \<open>The state of \<^verbatim>\<open>Home\<close>: its five \<^verbatim>\<open>useState\<close> cells.\<close>

record state =
  messages :: "Message list"
  isLoading :: bool
  sessionId :: "jsstring option"
  preferences :: UserPreferences
  error :: "jsstring option"

definition initial_preferences :: UserPreferences where
  "initial_preferences =
     (\<lambda>k. case k of
        Translation_kr \<Rightarrow> Some [0xAC1C, 0xC5ED, 0xD55C, 0xAE00]
      | Translation_en \<Rightarrow> Some (js ''ESV'')
      | Denomination \<Rightarrow> None)"

definition initial_state :: state where
  "initial_state =
     \<lparr>messages = [], isLoading = False, sessionId = None,
      preferences = initial_preferences, error = None\<rparr>"

text \<open>The message shown by the \<^verbatim>\<open>catch\<close> block of \<^verbatim>\<open>handleSend\<close>.\<close>

definition cannot_connect :: jsstring where
  "cannot_connect =
     [0xC11C, 0xBC84, 0xC5D0, 0x0020, 0xC5F0, 0xACB0, 0xD560, 0x0020, 0xC218, 0x0020,
      0xC5C6, 0xC2B5, 0xB2C8, 0xB2E4, 0x002E, 0x0020, 0xBC31, 0xC5D4, 0xB4DC, 0xB97C,
      0x0020, 0xC2E4, 0xD589, 0xD574, 0xC8FC, 0xC138, 0xC694, 0x002E]
     @ [0x0A] @ js ''Cannot connect to server. Please start the backend.''"

definition try_again :: jsstring where
  "try_again =
     [0xC624, 0xB958, 0xAC00, 0x0020, 0xBC1C, 0xC0DD, 0xD588, 0xC2B5, 0xB2C8, 0xB2E4,
      0x002E, 0x0020, 0xB2E4, 0xC2DC, 0x0020, 0xC2DC, 0xB3C4, 0xD574, 0xC8FC, 0xC138,
      0xC694, 0x002E]
     @ [0x0A]"

definition errorMessage :: "thrown \<Rightarrow> jsstring" where
  "errorMessage err =
     (if instanceof_Error err \<and> js_includes (err_message err) (js ''Failed to fetch'')
      then cannot_connect
      else try_again @ (if instanceof_Error err then err_message err else js ''Unknown error''))"

text \<open>
  \<^verbatim>\<open>handleSend\<close> up to its \<^verbatim>\<open>await\<close>, for the handler that the render of the state
  \<open>st\<close> created (\<^verbatim>\<open>useCallback\<close> with \<^verbatim>\<open>isLoading\<close>, \<^verbatim>\<open>sessionId\<close> and
  \<^verbatim>\<open>preferences\<close> as dependencies), called in that state: the guard, the user message
  and the request handed to \<^verbatim>\<open>sendMessage\<close> (\<open>None\<close> when the guard returns).
  \<open>fresh\<close> is what \<^verbatim>\<open>crypto.randomUUID()\<close> and \<^verbatim>\<open>new Date()\<close> give.
\<close>

definition handleSend_start :: "jsstring \<times> Date \<Rightarrow> state \<Rightarrow> jsstring \<Rightarrow> state \<times> ChatRequest option" where
  "handleSend_start fresh st text =
     (if trim text = [] \<or> isLoading st then (st, None)
      else
        let userMsg = \<lparr>message_id = fst fresh, role = User, content = trim text,
                       timestamp = snd fresh, sources = None, retrieval_mode = None\<rparr>
        in (st\<lparr>error := None, messages := messages st @ [userMsg], isLoading := True\<rparr>,
            Some \<lparr>message = trim text, session_id = sessionId st,
                  req_preferences = preferences st\<rparr>))"

text \<open>
  The same part of \<^verbatim>\<open>handleSend\<close> for a handler that an earlier render created:
  the guard and the request read \<^verbatim>\<open>isLoading\<close>, \<^verbatim>\<open>sessionId\<close> and \<^verbatim>\<open>preferences\<close>
  from the closure, that is from the state \<open>seen\<close> of that render, while the setters
  act on the current state \<open>st\<close> (\<^verbatim>\<open>setMessages\<close> through its updater function). A
  setter only schedules the next render. \<open>handleSend_start\<close> is the case of a handler
  called on the state its render saw.
\<close>

definition handleSend_closure :: "jsstring \<times> Date \<Rightarrow> state \<Rightarrow> state \<Rightarrow> jsstring \<Rightarrow> state \<times> ChatRequest option" where
  "handleSend_closure fresh seen st text =
     (if trim text = [] \<or> isLoading seen then (st, None)
      else
        let userMsg = \<lparr>message_id = fst fresh, role = User, content = trim text,
                       timestamp = snd fresh, sources = None, retrieval_mode = None\<rparr>
        in (st\<lparr>error := None, messages := messages st @ [userMsg], isLoading := True\<rparr>,
            Some \<lparr>message = trim text, session_id = sessionId seen,
                  req_preferences = preferences seen\<rparr>))"

text \<open>\<^verbatim>\<open>handleSend\<close> after the \<^verbatim>\<open>await\<close>: the \<^verbatim>\<open>try\<close> body, \<^verbatim>\<open>catch\<close> and \<^verbatim>\<open>finally\<close>.\<close>

definition handleSend_settle :: "jsstring \<times> Date \<Rightarrow> state \<Rightarrow> thrown + ChatResponse \<Rightarrow> state" where
  "handleSend_settle fresh st outcome =
     (case outcome of
        Inr r \<Rightarrow>
          let botMsg = \<lparr>message_id = fst fresh, role = Assistant, content = response r,
                        timestamp = snd fresh, sources = Some (res_sources r),
                        retrieval_mode = Some (res_retrieval_mode r)\<rparr>
          in st\<lparr>sessionId := Some (res_session_id r), messages := messages st @ [botMsg],
                isLoading := False\<rparr>
      | Inl err \<Rightarrow> st\<lparr>error := Some (errorMessage err), isLoading := False\<rparr>)"

text \<open>One call of \<^verbatim>\<open>handleSend\<close> run to its end with nothing else in between.\<close>

definition handleSend :: "fetch \<Rightarrow> jsstring \<times> Date \<Rightarrow> jsstring \<times> Date \<Rightarrow> state \<Rightarrow> jsstring \<Rightarrow> state" where
  "handleSend fetch fresh fresh' st text =
     (case handleSend_start fresh st text of
        (st', None) \<Rightarrow> st'
      | (st', Some payload) \<Rightarrow> handleSend_settle fresh' st' (sendMessage fetch payload))"

text \<open>
  What \<^verbatim>\<open>Home\<close> renders: the settings panel, the welcome screen or the chat area (the
  messages, the typing indicator when loading, the error box when \<^verbatim>\<open>error\<close> is a
  non-empty string), and the input with its \<^verbatim>\<open>disabled\<close> flag.
\<close>

datatype chat_area = Welcome | Chat "message_view list" bool "jsstring option"

record home_view =
  settings :: UserPreferences
  area :: chat_area
  input_disabled :: bool

definition Home :: "state \<Rightarrow> home_view" where
  "Home st =
     \<lparr>settings = preferences st,
      area = (if \<not> length (messages st) > 0 then Welcome
              else Chat (map ChatMessage (messages st)) (isLoading st)
                     (case error st of
                        None \<Rightarrow> None
                      | Some e \<Rightarrow> if e = [] then None else Some e)),
      input_disabled = isLoading st\<rparr>"

section \<open>The chat input, the welcome screen and the client's events\<close>

text \<open>The texts of \<^verbatim>\<open>SUGGESTIONS\<close> of the welcome screen.\<close>

definition SUGGESTIONS :: "jsstring list" where
  "SUGGESTIONS =
     [[0xC624, 0xB298, 0x0020, 0x0051, 0x0054, 0x0020, 0xCD94, 0xCC9C, 0xD574, 0xC8FC,
       0xC138, 0xC694],
      js ''What does the Bible say about anxiety?'',
      [0xB85C, 0xB9C8, 0xC11C, 0x0020, 0x0038, 0x003A, 0x0032, 0x0038, 0xC758, 0x0020,
       0xC758, 0xBBF8, 0xB97C, 0x0020, 0xC124, 0xBA85, 0xD574, 0xC8FC, 0xC138, 0xC694],
      js ''How should I pray according to Scripture?'',
      [0xAD6C, 0xC6D0, 0xC758, 0x0020, 0xD655, 0xC2E0, 0xC5D0, 0x0020, 0xB300, 0xD574,
       0x0020, 0xC131, 0xACBD, 0xC740, 0x0020, 0xBB50, 0xB77C, 0xACE0, 0x0020, 0xD558,
       0xB098, 0xC694, 0x003F],
      js ''Explain the Trinity in simple terms'']"

text \<open>
  The DOM element behind \<^verbatim>\<open>textareaRef.current\<close> (\<open>None\<close> while the ref is
  \<^verbatim>\<open>null\<close>): its \<^verbatim>\<open>value\<close> and its \<^verbatim>\<open>style.height\<close>.
\<close>

record textarea =
  ta_value :: jsstring
  ta_height :: jsstring

text \<open>
  The client: the current state of the page (every scheduled update applied), the
  state that the last render saw and closed its handlers and props over, the text
  area, and the chat requests that have been handed to \<^verbatim>\<open>sendMessage\<close> and have not
  settled yet, oldest first.
\<close>

record client =
  page :: state
  rendered :: state
  textareaRef :: "textarea option"
  in_flight :: "ChatRequest list"


text \<open>
  A call of the page's \<^verbatim>\<open>handleSend\<close> from an event: the handler is the one the last
  render created; it runs up to the \<^verbatim>\<open>await\<close>, and the request, if one is issued, is
  in flight from then on.
\<close>

definition onSend :: "jsstring \<times> Date \<Rightarrow> client \<Rightarrow> jsstring \<Rightarrow> client" where
  "onSend fresh c text =
     (case handleSend_closure fresh (rendered c) (page c) text of
        (st', None) \<Rightarrow> c\<lparr>page := st'\<rparr>
      | (st', Some payload) \<Rightarrow> c\<lparr>page := st', in_flight := in_flight c @ [payload]\<rparr>)"

text \<open>
  \<^verbatim>\<open>handleSend\<close> of \<^verbatim>\<open>ChatInput\<close>, whose \<^verbatim>\<open>disabled\<close> prop is the \<^verbatim>\<open>isLoading\<close> of the
  last render: it returns when the trimmed value is empty or the input is disabled;
  otherwise it calls \<^verbatim>\<open>onSend\<close> and clears the text area.
\<close>

definition ChatInput_handleSend :: "jsstring \<times> Date \<Rightarrow> client \<Rightarrow> client" where
  "ChatInput_handleSend fresh c =
     (case textareaRef c of
        None \<Rightarrow> c
      | Some ta \<Rightarrow>
          let v = trim (ta_value ta) in
          if v = [] \<or> isLoading (rendered c) then c
          else (onSend fresh c v)
                 \<lparr>textareaRef := Some (ta\<lparr>ta_value := [], ta_height := js ''auto''\<rparr>)\<rparr>)"

text \<open>
  \<^verbatim>\<open>handleInput\<close> of \<^verbatim>\<open>ChatInput\<close> after the user has edited the text area to \<open>v\<close>,
  \<open>h\<close> being the \<^verbatim>\<open>scrollHeight\<close> of the element: the height becomes
  \<^verbatim>\<open>Math.min(el.scrollHeight, 120) + "px"\<close>.
\<close>

definition ChatInput_handleInput :: "jsstring \<Rightarrow> nat \<Rightarrow> client \<Rightarrow> client" where
  "ChatInput_handleInput v h c =
     c\<lparr>textareaRef :=
          map_option (\<lambda>ta. ta\<lparr>ta_value := v, ta_height := digits (min h 120) @ js ''px''\<rparr>)
            (textareaRef c)\<rparr>"

text \<open>
  What can happen to the client: the \<open>n\<close>-th suggestion of the welcome screen is
  clicked (the screen is there when the last render saw no messages), the user edits
  the text area, the user presses Enter or the send button, the \<^verbatim>\<open>fetch\<close> of the
  \<open>n\<close>-th request in flight settles (with a response or a rejection), a select of the
  settings panel changes (the panel spreads the preferences of the last render), or
  the page renders.
\<close>

datatype event =
    Ask nat "jsstring \<times> Date"
  | Input jsstring nat
  | Submit "jsstring \<times> Date"
  | Settled nat "thrown + Response" "jsstring \<times> Date"
  | Select pref_key jsstring
  | Render

fun step :: "event \<Rightarrow> client \<Rightarrow> client" where
  "step (Ask n fresh) c =
     (if messages (rendered c) = [] \<and> n < length SUGGESTIONS
      then onSend fresh c (SUGGESTIONS ! n) else c)"
| "step (Input v h) c = ChatInput_handleInput v h c"
| "step (Submit fresh) c = ChatInput_handleSend fresh c"
| "step (Settled n outcome fresh) c =
     (if n < length (in_flight c)
      then c\<lparr>page := handleSend_settle fresh (page c)
                        (sendMessage (\<lambda>args. outcome) (in_flight c ! n)),
             in_flight := take n (in_flight c) @ drop (Suc n) (in_flight c)\<rparr>
      else c)"
| "step (Select key v) c =
     c\<lparr>page := (page c)\<lparr>preferences :=
          (case key of
             Translation_kr \<Rightarrow> select_translation_kr (preferences (rendered c)) v
           | Translation_en \<Rightarrow> select_translation_en (preferences (rendered c)) v
           | Denomination \<Rightarrow> select_denomination (preferences (rendered c)) v)\<rparr>\<rparr>"
| "step Render c = c\<lparr>rendered := page c\<rparr>"






section \<open>The engine's contract\<close>

text \<open>
  The Retrieval and Conversation Orchestration Engine answers the requests of
  \<open>sendMessage\<close>; its code is not among the source files. The definitions of this
  section are modelled from the spec, for the claims that speak of what the engine
  does.
\<close>

text \<open>
  Modelled from the spec: the two output states of the Mode Router (section 4.4, and
  the tagged result of section 9), whose code is missing.
\<close>

datatype mode = Grounded | Ungrounded

text \<open>
  Modelled from the spec: the mode as the engine's transport, whose code is missing,
  writes it into the response: the literals that the client's type declares.
\<close>

fun mode_wire :: "mode \<Rightarrow> jsstring" where
  "mode_wire Grounded = rag"
| "mode_wire Ungrounded = conversational"

text \<open>
  Modelled from the spec: the match kind of a Candidate (section 3) of the Hybrid
  Retriever, whose code is missing.
\<close>

datatype match_kind = Exact | Semantic

text \<open>
  Modelled from the spec: a Candidate of the Hybrid Retriever (section 3), whose code is
  missing: a verse, its score and its match kind.
\<close>

record Candidate =
  candidate_verse :: Source
  score :: real
  match_kind :: match_kind

text \<open>
  Modelled from the spec: the confidence of the Hybrid Retriever (section 4.3), whose
  code is missing: the score of the top-ranked Candidate, the maximum score.
\<close>

fun confidence :: "Candidate list \<Rightarrow> real" where
  "confidence [] = 0"
| "confidence [c] = score c"
| "confidence (c # cs) = max (score c) (confidence cs)"

text \<open>
  Modelled from the spec: the Mode Router (section 4.4), whose code is missing:
  grounded when the confidence reaches the threshold, ungrounded when it is below the
  threshold or the Candidate list is empty.
\<close>

definition mode_router :: "real \<Rightarrow> Candidate list \<Rightarrow> mode" where
  "mode_router threshold candidates =
     (if candidates \<noteq> [] \<and> confidence candidates \<ge> threshold then Grounded
      else Ungrounded)"

text \<open>
  Modelled from the spec: the source metadata that the Response Assembler (section
  4.7), whose code is missing, attaches to an answer: the verses with their scores when
  grounded, nothing when ungrounded.
\<close>

definition attached_sources :: "mode \<Rightarrow> Candidate list \<Rightarrow> Source list" where
  "attached_sources mode candidates =
     (case mode of
        Grounded \<Rightarrow> map (\<lambda>c. (candidate_verse c)\<lparr>similarity := Some (score c)\<rparr>) candidates
      | Ungrounded \<Rightarrow> [])"

text \<open>
  Modelled from the spec: the answer of the engine's \<^verbatim>\<open>chat\<close> entry point (sections 4.7
  and 6), whose code is missing: the text, the session id, the attached sources and the
  mode; the other fields of the response are given.
\<close>

definition assemble_response ::
  "real \<Rightarrow> Candidate list \<Rightarrow> jsstring \<Rightarrow> jsstring \<Rightarrow> jsstring \<Rightarrow> jsstring \<Rightarrow> Usage \<Rightarrow> ChatResponse" where
  "assemble_response threshold candidates answer sid lang mdl use =
     \<lparr>response = answer, res_session_id = sid, language = lang,
      res_sources = attached_sources (mode_router threshold candidates) candidates,
      res_retrieval_mode = mode_wire (mode_router threshold candidates), model = mdl,
      usage = use\<rparr>"

text \<open>
  Modelled from the spec: a Session of the Session Manager (section 3), whose code is
  missing: its turns in order, its preferences and its two time stamps.
\<close>

record Session =
  turns :: "Message list"
  session_preferences :: UserPreferences
  created_at :: Date
  last_active_at :: Date

text \<open>
  Modelled from the spec: the store of the Session Manager (section 4.6), whose code is
  missing: the sessions by id, and the next id to hand out, so that an id is never
  handed out twice.
\<close>

record SessionStore =
  sessions :: "nat \<rightharpoonup> Session"
  next_id :: nat

text \<open>
  Modelled from the spec: the store of the Session Manager (section 4.6), whose code is
  missing, before the first request.
\<close>

definition empty_store :: SessionStore where
  "empty_store = \<lparr>sessions = Map.empty, next_id = 0\<rparr>"

text \<open>
  Modelled from the spec: the well-formed stores of the Session Manager (section 4.6),
  whose code is missing: every id in use has been handed out.
\<close>

definition store_ok :: "SessionStore \<Rightarrow> bool" where
  "store_ok store = (\<forall>k. sessions store k \<noteq> None \<longrightarrow> k < next_id store)"

text \<open>
  Modelled from the spec: a known session id (section 4.6), for the Session Manager,
  whose code is missing: the request names a session of the store.
\<close>

definition known :: "SessionStore \<Rightarrow> nat option \<Rightarrow> bool" where
  "known store sid = (case sid of None \<Rightarrow> False | Some k \<Rightarrow> sessions store k \<noteq> None)"

text \<open>
  Modelled from the spec: \<^verbatim>\<open>getOrCreate(sessionId?)\<close> of the Session Manager (section
  4.6), whose code is missing: the session of a known id; for an omitted or unknown id
  a new session with a fresh id and no turns.
\<close>

definition getOrCreate ::
  "SessionStore \<Rightarrow> nat option \<Rightarrow> UserPreferences \<Rightarrow> Date \<Rightarrow> (nat \<times> Session) \<times> SessionStore" where
  "getOrCreate store sid prefs now =
     (case (case sid of None \<Rightarrow> None | Some k \<Rightarrow> map_option (Pair k) (sessions store k)) of
        Some (k, s) \<Rightarrow> ((k, s), store)
      | None \<Rightarrow>
          let k = next_id store;
              s = \<lparr>turns = [], session_preferences = prefs, created_at = now,
                   last_active_at = now\<rparr>
          in ((k, s), store\<lparr>sessions := (sessions store)(k \<mapsto> s), next_id := Suc k\<rparr>))"

text \<open>
  Modelled from the spec: the explicit deletion of a session (section 3), whose code is
  missing.
\<close>

definition delete_session :: "SessionStore \<Rightarrow> nat \<Rightarrow> SessionStore" where
  "delete_session store k = store\<lparr>sessions := (sessions store)(k := None)\<rparr>"

text \<open>
  Modelled from the spec: the generation request of the Response Assembler (section
  4.7), whose code is missing: the mode (which picks the instruction), the passages,
  the prior turns and the new user message.
\<close>

record GenerationRequest =
  gen_mode :: mode
  gen_passages :: "Source list"
  gen_history :: "Message list"
  gen_message :: jsstring

text \<open>
  Modelled from the spec: \<^verbatim>\<open>history(sessionId)\<close> of the Session Manager (section 4.6),
  whose code is missing: the turns of the session in the order they were appended.
\<close>

definition history :: "SessionStore \<Rightarrow> nat \<Rightarrow> Message list" where
  "history store k = (case sessions store k of None \<Rightarrow> [] | Some s \<Rightarrow> turns s)"

text \<open>
  Modelled from the spec: \<^verbatim>\<open>appendTurn(sessionId, Turn)\<close> of the Session Manager
  (section 4.6), whose code is missing: the turn goes to the end of the session's list.
\<close>

definition appendTurn :: "SessionStore \<Rightarrow> nat \<Rightarrow> Message \<Rightarrow> SessionStore" where
  "appendTurn store k turn =
     (case sessions store k of
        None \<Rightarrow> store
      | Some s \<Rightarrow>
          store\<lparr>sessions := (sessions store)(k \<mapsto>
            s\<lparr>turns := turns s @ [turn], last_active_at := timestamp turn\<rparr>)\<rparr>)"

text \<open>
  Modelled from the spec: the recent window of the Response Assembler (section 4.7),
  whose code is missing: the last \<open>window\<close> prior turns.
\<close>

definition recent_window :: "nat \<Rightarrow> Message list \<Rightarrow> Message list" where
  "recent_window window ts = drop (length ts - window) ts"

text \<open>
  Modelled from the spec: the user's Turn (section 3) that the engine, whose code is
  missing, records for a message; a Turn has no id, so the id is left empty.
\<close>

definition user_turn :: "jsstring \<Rightarrow> Date \<Rightarrow> Message" where
  "user_turn text now =
     \<lparr>message_id = [], role = User, content = text, timestamp = now, sources = None,
      retrieval_mode = None\<rparr>"

text \<open>
  Modelled from the spec: the assistant's Turn (section 3) that the Response Assembler
  (section 4.7), whose code is missing, records for an answer, with the sources and the
  mode used.
\<close>

definition assistant_turn :: "jsstring \<Rightarrow> mode \<Rightarrow> Source list \<Rightarrow> Date \<Rightarrow> Message" where
  "assistant_turn answer m srcs now =
     \<lparr>message_id = [], role = Assistant, content = answer, timestamp = now,
      sources = Some srcs, retrieval_mode = Some (mode_wire m)\<rparr>"

text \<open>
  Modelled from the spec: one successful exchange of the engine (sections 2, 4.6 and
  4.7), whose code is missing: the session is found or created, the generation request
  is built from the recent window of its history and the new message, the generation
  service \<open>generate\<close> answers, and the user's turn and then the assistant's turn are
  appended. The result is the generation request, the session id, the answer and the
  store.
\<close>

definition engine_exchange ::
  "nat \<Rightarrow> real \<Rightarrow> (GenerationRequest \<Rightarrow> jsstring) \<Rightarrow> SessionStore \<Rightarrow> nat option
     \<Rightarrow> UserPreferences \<Rightarrow> jsstring \<Rightarrow> Candidate list \<Rightarrow> Date
     \<Rightarrow> GenerationRequest \<times> nat \<times> jsstring \<times> SessionStore" where
  "engine_exchange window threshold generate store sid prefs text candidates now =
     (let ((k, s), store1) = getOrCreate store sid prefs now;
          m = mode_router threshold candidates;
          request = \<lparr>gen_mode = m, gen_passages = attached_sources m candidates,
                     gen_history = recent_window window (history store1 k),
                     gen_message = text\<rparr>;
          answer = generate request;
          store2 = appendTurn store1 k (user_turn text now);
          store3 = appendTurn store2 k
                     (assistant_turn answer m (attached_sources m candidates) now)
      in (request, k, answer, store3))"


section \<open>Sample environments\<close>

text \<open>
  Three behaviours of \<^verbatim>\<open>fetch\<close> used to run the client on concrete inputs: the server
  cannot be reached (the promise rejects, as browsers do with a \<^verbatim>\<open>TypeError\<close>), the
  server answers a chat request with the body \<open>r\<close>, and the server answers with a
  status that is not ok and the body \<open>detail\<close>.
\<close>

definition fetch_unreachable :: fetch where
  "fetch_unreachable args = Inl (TypeError (js ''Failed to fetch''))"

definition server_answers :: "ChatResponse \<Rightarrow> fetch" where
  "server_answers r args = Inr \<lparr>ok = True, status = 200, body_text = [], body_json = Inr r\<rparr>"

definition server_fails :: "nat \<Rightarrow> jsstring \<Rightarrow> fetch" where
  "server_fails code detail args =
     Inr \<lparr>ok = False, status = code, body_text = detail, body_json = Inl (SyntaxError [])\<rparr>"

definition sample_response :: "jsstring \<Rightarrow> ChatResponse" where
  "sample_response answer =
     \<lparr>response = answer, res_session_id = js ''s-1'', language = js ''en'',
      res_sources = [], res_retrieval_mode = conversational, model = js ''m'',
      usage = \<lparr>input_tokens = 1, output_tokens = 1\<rparr>\<rparr>"

definition sample_payload :: ChatRequest where
  "sample_payload =
     \<lparr>message = js ''Hi'', session_id = None, req_preferences = initial_preferences\<rparr>"

text \<open>A store with one session, and a Candidate that scores below the default threshold.\<close>

definition sample_store :: SessionStore where
  "sample_store = snd (getOrCreate empty_store None initial_preferences 3)"

definition sample_candidate :: Candidate where
  "sample_candidate =
     \<lparr>candidate_verse =
        \<lparr>source_text = js ''In the beginning'', reference = js ''Genesis 1:1'',
         reference_kr = [], translation = js ''ESV'', book = js ''Genesis'', book_kr = [],
         chapter_number = 1, verse = 1, similarity = None\<rparr>,
      score = 1 / 10, match_kind = Semantic\<rparr>"

text \<open>
  A generation service with one answer, and two exchanges of the engine in one
  session: the first with no session id, the second with the id the first returned.
\<close>

definition sample_generate :: "GenerationRequest \<Rightarrow> jsstring" where
  "sample_generate request = js ''Grace''"

definition sample_first :: "GenerationRequest \<times> nat \<times> jsstring \<times> SessionStore" where
  "sample_first =
     engine_exchange 10 (1 / 4) sample_generate empty_store None initial_preferences
       (js ''Hi'') [sample_candidate] 3"

definition sample_second :: "GenerationRequest \<times> nat \<times> jsstring \<times> SessionStore" where
  "sample_second =
     engine_exchange 10 (1 / 4) sample_generate (snd (snd (snd sample_first)))
       (Some (fst (snd sample_first))) initial_preferences (js ''Why?'') [] 4"

section \<open>Properties of the settings panel\<close>

text \<open>
  C10. Updating one preference field through the settings panel leaves every other
  field as it was: \<open>update\<close> changes the value of its key only, and so does each of the
  three select handlers. Selecting the empty denomination option stores \<^verbatim>\<open>null\<close>
  (\<open>None\<close>), not the empty string; any other option stores its value.
\<close>

theorem update_frame:
  "(k \<noteq> key \<longrightarrow> update prefs key v k = prefs k)
   \<and> update prefs key v key = v
   \<and> (k \<noteq> Translation_kr \<longrightarrow> select_translation_kr prefs s k = prefs k)
   \<and> (k \<noteq> Translation_en \<longrightarrow> select_translation_en prefs s k = prefs k)
   \<and> (k \<noteq> Denomination \<longrightarrow> select_denomination prefs s k = prefs k)
   \<and> select_denomination prefs [] Denomination = None
   \<and> select_denomination prefs [] Denomination \<noteq> Some []
   \<and> (s \<noteq> [] \<longrightarrow> select_denomination prefs s Denomination = Some s)"
  by (simp add: update_def select_translation_kr_def select_translation_en_def
      select_denomination_def or_null_def)

theorem update_frame_witness:
  "Translation_en \<noteq> Translation_kr
   \<and> update initial_preferences Translation_kr (Some (js ''KRV'')) Translation_en
       = Some (js ''ESV'')
   \<and> update initial_preferences Translation_kr (Some (js ''KRV'')) Translation_kr
       = Some (js ''KRV'')
   \<and> select_translation_kr initial_preferences (js ''Baptist'') Translation_en
       = Some (js ''ESV'')
   \<and> Translation_kr \<noteq> Translation_en
   \<and> select_translation_en initial_preferences (js ''Baptist'') Translation_kr
       = initial_preferences Translation_kr
   \<and> Translation_en \<noteq> Denomination
   \<and> select_denomination initial_preferences (js ''Baptist'') Translation_en
       = Some (js ''ESV'')
   \<and> select_denomination initial_preferences [] Denomination = None
   \<and> js ''Baptist'' \<noteq> []
   \<and> select_denomination initial_preferences (js ''Baptist'') Denomination
       = Some (js ''Baptist'')"
proof -
  have ne: "js ''Baptist'' \<noteq> []"
    by (simp add: js_def)
  have esv: "initial_preferences Translation_en = Some (js ''ESV'')"
    by (simp add: initial_preferences_def)
  show ?thesis
    using update_frame [of Translation_en Translation_kr initial_preferences
        "Some (js ''KRV'')" "js ''Baptist''"]
      update_frame [of Translation_kr Translation_en initial_preferences
        None "js ''Baptist''"]
      ne esv
    by simp
qed

section \<open>Properties of the API client\<close>

lemma sendMessage_not_ok:
  "fetch (chat_args payload) = Inr res \<Longrightarrow> \<not> ok res \<Longrightarrow>
   sendMessage fetch payload =
     Inl (Error (js ''Server error '' @ digits (status res) @ js '': '' @ body_text res))"
  by (simp add: sendMessage_def)

text \<open>
  C1. The chat entry point \<open>sendMessage\<close> takes a payload made of the message, the
  session id (a string or \<^verbatim>\<open>null\<close>) and the preferences, and posts exactly that payload
  to \<^verbatim>\<open>/chat\<close>. When the server answers ok with a body that parses to \<open>r\<close>, the result is
  \<open>r\<close>, a \<open>ChatResponse\<close>: it holds the answer text (\<open>response\<close>), the session id, the
  sources and the retrieval mode.
\<close>

theorem sendMessage_entry_point:
  "body (chat_args \<lparr>message = msg, session_id = sid, req_preferences = prefs\<rparr>)
     = Some \<lparr>message = msg, session_id = sid, req_preferences = prefs\<rparr>
   \<and> http_method (chat_args payload) = POST
   \<and> url (chat_args payload) = API_BASE @ js ''/chat''
   \<and> (fetch (chat_args payload) = Inr res \<and> ok res \<and> body_json res = Inr r \<longrightarrow>
        (\<exists>x. sendMessage fetch payload = Inr x
           \<and> response x = response r \<and> res_session_id x = res_session_id r
           \<and> res_sources x = res_sources r
           \<and> res_retrieval_mode x = res_retrieval_mode r))"
  by (simp add: chat_args_def sendMessage_def)

theorem sendMessage_entry_point_witness:
  "body (chat_args \<lparr>message = js ''Hi'', session_id = None,
                    req_preferences = initial_preferences\<rparr>)
     = Some \<lparr>message = js ''Hi'', session_id = None, req_preferences = initial_preferences\<rparr>
   \<and> server_answers (sample_response (js ''Grace'')) (chat_args sample_payload)
       = Inr \<lparr>ok = True, status = 200, body_text = [],
              body_json = Inr (sample_response (js ''Grace''))\<rparr>
   \<and> (\<exists>x. sendMessage (server_answers (sample_response (js ''Grace''))) sample_payload = Inr x
         \<and> response x = js ''Grace'' \<and> res_session_id x = js ''s-1''
         \<and> res_sources x = [] \<and> res_retrieval_mode x = conversational)"
  using sendMessage_entry_point [of "js ''Hi''" None initial_preferences sample_payload
      "server_answers (sample_response (js ''Grace''))"
      "\<lparr>ok = True, status = 200, body_text = [],
        body_json = Inr (sample_response (js ''Grace''))\<rparr>"
      "sample_response (js ''Grace'')"]
  by (simp add: server_answers_def sample_response_def)

text \<open>
  C4 (as amended). For every session id and whatever response the server gives, of any
  status (so also when the session does not exist or is already empty),
  \<open>clearSession\<close> completes without an error, and so does a second call right after the
  first. It raises an error exactly when \<^verbatim>\<open>fetch\<close> itself rejects, and then it is that
  error.
\<close>

theorem clearSession_succeeds:
  "(fetch (session_args sid) = Inr res \<longrightarrow> clearSession fetch sid = Inr ())
   \<and> (fetch (session_args sid) = Inr res \<and> fetch' (session_args sid) = Inr res'
        \<longrightarrow> clearSession fetch sid = Inr () \<and> clearSession fetch' sid = Inr ())
   \<and> (clearSession fetch sid = Inl e \<longleftrightarrow> fetch (session_args sid) = Inl e)"
  by (auto simp add: clearSession_def split: sum.splits)

theorem clearSession_succeeds_witness:
  "server_fails 404 (js ''no such session'') (session_args (js ''abc''))
     = Inr \<lparr>ok = False, status = 404, body_text = js ''no such session'',
            body_json = Inl (SyntaxError [])\<rparr>
   \<and> clearSession (server_fails 404 (js ''no such session'')) (js ''abc'') = Inr ()"
  using clearSession_succeeds [of "server_fails 404 (js ''no such session'')" "js ''abc''"
      "\<lparr>ok = False, status = 404, body_text = js ''no such session'',
        body_json = Inl (SyntaxError [])\<rparr>"]
  by (simp add: server_fails_def)

text \<open>
  C4 as stated fails where the request itself fails: with the server unreachable,
  \<open>clearSession\<close> raises the \<^verbatim>\<open>TypeError\<close> of \<^verbatim>\<open>fetch\<close>.
\<close>

theorem clearSession_counterexample:
  "clearSession fetch_unreachable (js ''abc'') = Inl (TypeError (js ''Failed to fetch''))"
  by (simp add: clearSession_def fetch_unreachable_def)

section \<open>Properties of the page\<close>

lemma handleSend_start_pass:
  "trim text \<noteq> [] \<Longrightarrow> \<not> isLoading st \<Longrightarrow>
   handleSend_start fresh st text =
     (st\<lparr>error := None,
         messages := messages st @
           [\<lparr>message_id = fst fresh, role = User, content = trim text,
             timestamp = snd fresh, sources = None, retrieval_mode = None\<rparr>],
         isLoading := True\<rparr>,
      Some \<lparr>message = trim text, session_id = sessionId st,
            req_preferences = preferences st\<rparr>)"
  by (simp add: handleSend_start_def Let_def)

lemma handleSend_start_guard:
  "trim text = [] \<or> isLoading st \<Longrightarrow> handleSend_start fresh st text = (st, None)"
  by (auto simp add: handleSend_start_def)

lemma handleSend_pass:
  "trim text \<noteq> [] \<Longrightarrow> \<not> isLoading st \<Longrightarrow>
   handleSend fetch fresh fresh' st text =
     handleSend_settle fresh'
       (st\<lparr>error := None,
           messages := messages st @
             [\<lparr>message_id = fst fresh, role = User, content = trim text,
               timestamp = snd fresh, sources = None, retrieval_mode = None\<rparr>],
           isLoading := True\<rparr>)
       (sendMessage fetch \<lparr>message = trim text, session_id = sessionId st,
                            req_preferences = preferences st\<rparr>)"
  by (simp add: handleSend_def handleSend_start_pass)

lemma handleSend_settle_not_loading: "\<not> isLoading (handleSend_settle fresh st outcome)"
  by (cases outcome) (simp_all add: handleSend_settle_def Let_def)

lemma handleSend_closure_fresh:
  "handleSend_closure fresh st st text = handleSend_start fresh st text"
  by (simp add: handleSend_closure_def handleSend_start_def)

lemma errorMessage_nonempty: "errorMessage err \<noteq> []"
  by (simp add: errorMessage_def cannot_connect_def try_again_def)

lemma trim_sample: "trim (js '' Hi '') = js ''Hi''"
  by (simp add: trim_def js_def is_space_def is_white_space_def is_line_terminator_def)

lemma trim_sample_nonempty: "trim (js '' Hi '') \<noteq> []"
  unfolding trim_sample by (simp add: js_def)

lemma initial_state_sel:
  "messages initial_state = []" "\<not> isLoading initial_state"
  "sessionId initial_state = None" "preferences initial_state = initial_preferences"
  "error initial_state = None"
  by (simp_all add: initial_state_def)

lemma digits_500: "digits 500 = js ''500''"
  by (simp add: digits.simps js_def)

lemma sample_error_text:
  "js ''Server error '' @ digits 500 @ js '': '' @ js ''boom'' = js ''Server error 500: boom''"
  by (simp add: digits_500) (simp add: js_def)

lemma sample_error_not_fetch:
  "\<not> js_includes (js ''Server error 500: boom'') (js ''Failed to fetch'')"
  by (simp add: js_def starts_with_def)

lemma sendMessage_server_answers: "sendMessage (server_answers r) payload = Inr r"
  by (simp add: sendMessage_def server_answers_def)

lemma handleSend_settle_append_only:
  "\<exists>new. messages (handleSend_settle fresh st outcome) = messages st @ new"
  by (cases outcome) (simp_all add: handleSend_settle_def Let_def)

lemma handleSend_append_only:
  "\<exists>new. messages (handleSend fetch fresh fresh' st text) = messages st @ new"
proof (cases "trim text = [] \<or> isLoading st")
  case True
  then show ?thesis
    by (simp add: handleSend_def handleSend_start_guard)
next
  case False
  then have pass: "trim text \<noteq> []" "\<not> isLoading st" by simp_all
  let ?u = "\<lparr>message_id = fst fresh, role = User, content = trim text,
             timestamp = snd fresh, sources = None, retrieval_mode = None\<rparr>"
  let ?st1 = "st\<lparr>error := None, messages := messages st @ [?u], isLoading := True\<rparr>"
  obtain new where "messages (handleSend fetch fresh fresh' st text) = messages ?st1 @ new"
    using handleSend_settle_append_only [of fresh' ?st1] handleSend_pass [OF pass]
    by metis
  then have "messages (handleSend fetch fresh fresh' st text) = messages st @ (?u # new)"
    by simp
  then show ?thesis ..
qed

text \<open>
  C3. When the chat call comes back with a status that is not ok, the failure is
  reported: \<open>sendMessage\<close> throws the error \<^verbatim>\<open>Server error <status>: <detail>\<close>;
  \<open>handleSend\<close> stores a non-empty error message, which the page displays in its
  error box; the user's message is the only message appended, so no assistant message
  is produced; loading ends and the session id is kept. The message displayed is the
  retry text followed by the message of the error, unless the detail contains
  \<^verbatim>\<open>Failed to fetch\<close>, when it is the cannot-connect text. Whatever \<open>sendMessage\<close>
  throws, \<open>handleSend\<close> stores a non-empty error message and appends no message.
\<close>

theorem failure_is_reported:
  assumes "trim text \<noteq> []" and "\<not> isLoading st"
    and "fetch (chat_args \<lparr>message = trim text, session_id = sessionId st,
                            req_preferences = preferences st\<rparr>) = Inr res"
    and "\<not> ok res"
  shows "let err = Error (js ''Server error '' @ digits (status res) @ js '': ''
                          @ body_text res);
             st' = handleSend fetch fresh fresh' st text
         in sendMessage fetch \<lparr>message = trim text, session_id = sessionId st,
                                req_preferences = preferences st\<rparr> = Inl err
            \<and> error st' = Some (errorMessage err)
            \<and> errorMessage err \<noteq> []
            \<and> errorMessage err =
                (if js_includes (err_message err) (js ''Failed to fetch'')
                 then cannot_connect else try_again @ err_message err)
            \<and> messages st' = messages st @
                [\<lparr>message_id = fst fresh, role = User, content = trim text,
                  timestamp = snd fresh, sources = None, retrieval_mode = None\<rparr>]
            \<and> \<not> isLoading st'
            \<and> sessionId st' = sessionId st
            \<and> area (Home st') =
                Chat (map ChatMessage (messages st')) False (Some (errorMessage err))
            \<and> error (handleSend_settle fresh' st0 (Inl e)) = Some (errorMessage e)
            \<and> errorMessage e \<noteq> []
            \<and> messages (handleSend_settle fresh' st0 (Inl e)) = messages st0"
  using assms
  by (simp add: Let_def handleSend_pass sendMessage_not_ok handleSend_settle_def
      errorMessage_nonempty Home_def)
    (simp add: errorMessage_def)

theorem failure_is_reported_witness:
  "trim (js '' Hi '') \<noteq> [] \<and> \<not> isLoading initial_state
   \<and> \<not> ok \<lparr>ok = False, status = 500, body_text = js ''boom'',
              body_json = Inl (SyntaxError [])\<rparr>
   \<and> sendMessage (server_fails 500 (js ''boom''))
         \<lparr>message = trim (js '' Hi ''), session_id = sessionId initial_state,
          req_preferences = preferences initial_state\<rparr>
       = Inl (Error (js ''Server error 500: boom''))
   \<and> error (handleSend (server_fails 500 (js ''boom'')) (js ''id-1'', 5) (js ''id-2'', 7)
              initial_state (js '' Hi ''))
       = Some (try_again @ js ''Server error 500: boom'')
   \<and> map role (messages (handleSend (server_fails 500 (js ''boom'')) (js ''id-1'', 5)
                  (js ''id-2'', 7) initial_state (js '' Hi ''))) = [User]"
proof -
  have l0: "\<not> isLoading initial_state"
    by (simp add: initial_state_def)
  have f0: "server_fails 500 (js ''boom'')
      (chat_args \<lparr>message = trim (js '' Hi ''), session_id = sessionId initial_state,
                  req_preferences = preferences initial_state\<rparr>)
      = Inr \<lparr>ok = False, status = 500, body_text = js ''boom'',
             body_json = Inl (SyntaxError [])\<rparr>"
    by (simp add: server_fails_def)
  have nok: "\<not> ok \<lparr>ok = False, status = 500, body_text = js ''boom'',
              body_json = Inl (SyntaxError [])\<rparr>"
    by simp
  show ?thesis
    using failure_is_reported [of "js '' Hi ''" initial_state
        "server_fails 500 (js ''boom'')" _ "(js ''id-1'', 5)" "(js ''id-2'', 7)",
        OF trim_sample_nonempty l0 f0 nok]
      l0 trim_sample_nonempty
    by (simp add: Let_def sample_error_text sample_error_not_fetch initial_state_sel(1))
qed

lemma client_exchange_appends:
  assumes "trim text \<noteq> []" and "\<not> isLoading st"
    and "sendMessage fetch \<lparr>message = trim text, session_id = sessionId st,
                             req_preferences = preferences st\<rparr> = Inr r"
    and "trim text2 \<noteq> []"
    and "sendMessage fetch2 \<lparr>message = trim text2, session_id = Some (res_session_id r),
                             req_preferences = preferences st\<rparr> = Inr r2"
  shows "(\<exists>new. messages (handleSend fetch0 g g' st0 text0) = messages st0 @ new)
         \<and> (let user1 = \<lparr>message_id = fst f1, role = User, content = trim text,
                       timestamp = snd f1, sources = None, retrieval_mode = None\<rparr>;
             bot1 = \<lparr>message_id = fst f1', role = Assistant, content = response r,
                      timestamp = snd f1', sources = Some (res_sources r),
                      retrieval_mode = Some (res_retrieval_mode r)\<rparr>;
             user2 = \<lparr>message_id = fst f2, role = User, content = trim text2,
                       timestamp = snd f2, sources = None, retrieval_mode = None\<rparr>;
             bot2 = \<lparr>message_id = fst f2', role = Assistant, content = response r2,
                      timestamp = snd f2', sources = Some (res_sources r2),
                      retrieval_mode = Some (res_retrieval_mode r2)\<rparr>;
             st1 = handleSend fetch f1 f1' st text;
             st2 = handleSend fetch2 f2 f2' st1 text2
         in messages st1 = messages st @ [user1, bot1]
            \<and> messages (fst (handleSend_start f2 st1 text2))
                = messages st @ [user1, bot1, user2]
            \<and> snd (handleSend_start f2 st1 text2) =
                Some \<lparr>message = trim text2, session_id = Some (res_session_id r),
                      req_preferences = preferences st\<rparr>
            \<and> messages st2 = messages st @ [user1, bot1, user2, bot2]
            \<and> length (messages st2) = length (messages st) + 4
            \<and> map role (drop (length (messages st)) (messages st2))
                = [User, Assistant, User, Assistant])"
proof -
  let ?st1 = "handleSend fetch f1 f1' st text"
  have s1: "?st1 = st\<lparr>error := None,
        messages := messages st @
           [\<lparr>message_id = fst f1, role = User, content = trim text,
             timestamp = snd f1, sources = None, retrieval_mode = None\<rparr>,
            \<lparr>message_id = fst f1', role = Assistant, content = response r,
             timestamp = snd f1', sources = Some (res_sources r),
             retrieval_mode = Some (res_retrieval_mode r)\<rparr>],
        isLoading := False, sessionId := Some (res_session_id r)\<rparr>"
    using assms(1-3) by (simp add: handleSend_pass handleSend_settle_def Let_def)
  have l1: "\<not> isLoading ?st1" and sid1: "sessionId ?st1 = Some (res_session_id r)"
    and p1: "preferences ?st1 = preferences st"
    by (simp_all add: s1)
  have m1: "messages ?st1 = messages st @
           [\<lparr>message_id = fst f1, role = User, content = trim text,
             timestamp = snd f1, sources = None, retrieval_mode = None\<rparr>,
            \<lparr>message_id = fst f1', role = Assistant, content = response r,
             timestamp = snd f1', sources = Some (res_sources r),
             retrieval_mode = Some (res_retrieval_mode r)\<rparr>]"
    by (simp add: s1)
  have start2: "handleSend_start f2 ?st1 text2 =
     (?st1\<lparr>error := None,
         messages := messages ?st1 @
           [\<lparr>message_id = fst f2, role = User, content = trim text2,
             timestamp = snd f2, sources = None, retrieval_mode = None\<rparr>],
         isLoading := True\<rparr>,
      Some \<lparr>message = trim text2, session_id = Some (res_session_id r),
            req_preferences = preferences st\<rparr>)"
    using handleSend_start_pass [OF assms(4) l1, of f2] by (simp add: sid1 p1)
  have s2: "messages (handleSend fetch2 f2 f2' ?st1 text2) = messages ?st1 @
           [\<lparr>message_id = fst f2, role = User, content = trim text2,
             timestamp = snd f2, sources = None, retrieval_mode = None\<rparr>,
            \<lparr>message_id = fst f2', role = Assistant, content = response r2,
             timestamp = snd f2', sources = Some (res_sources r2),
             retrieval_mode = Some (res_retrieval_mode r2)\<rparr>]"
    using assms(5)
    by (simp add: handleSend_pass [OF assms(4) l1] sid1 p1 handleSend_settle_def Let_def)
  show ?thesis
    unfolding Let_def by (simp add: start2 s2 m1 handleSend_append_only)
qed

section \<open>Properties of the client's events\<close>




















section \<open>Properties of message formatting\<close>

lemma starts_with_split: "starts_with s p \<Longrightarrow> s = p @ drop (length p) s"
  unfolding starts_with_def by (metis append_take_drop_id)

lemma starts_with_append: "starts_with (p @ r) p"
  by (simp add: starts_with_def)

lemma js_includes_append: "js_includes (a @ p @ c) p"
proof (induction a)
  case Nil
  show ?case
    by (cases "p @ c") (simp_all add: starts_with_def, metis append_eq_conv_conj)
next
  case (Cons x a)
  then show ?case by simp
qed

lemma has_fragment_find: "has_fragment opening closing s \<Longrightarrow> find_fragment opening closing s"
proof -
  assume "has_fragment opening closing s"
  then obtain a b c where s: "s = a @ opening @ b @ closing @ c"
    unfolding has_fragment_def by blast
  have "find_fragment opening closing (a @ opening @ b @ closing @ c)"
  proof (induction a)
    case Nil
    show ?case
    proof (cases "opening @ b @ closing @ c")
      case Nil
      then show ?thesis by simp
    next
      case (Cons x xs)
      have "starts_with (opening @ b @ closing @ c) opening"
        by (rule starts_with_append)
      moreover have "js_includes (drop (length opening) (opening @ b @ closing @ c)) closing"
        by (simp add: js_includes_append)
      ultimately show ?thesis
        using Cons by (metis append_Nil find_fragment.simps(2))
    qed
  next
    case (Cons x a)
    then show ?case by simp
  qed
  with s show ?thesis by simp
qed

lemma gsub_no_match:
  "(\<And>n. m (drop n s) = None) \<Longrightarrow> gsub m s = s"
proof (induction s)
  case Nil
  from Nil [of 0] show ?case by (simp add: gsub.simps)
next
  case (Cons c cs)
  have "m (drop n cs) = None" for n
    using Cons.prems [of "Suc n"] by simp
  then have "gsub m cs = cs" by (rule Cons.IH)
  moreover have "m (c # cs) = None"
    using Cons.prems [of 0] by simp
  ultimately show ?case by (simp add: gsub.simps [of m "c # cs"])
qed

lemma gsub_replaces:
  assumes frag: "\<And>t r k. m t = Some (r, k) \<Longrightarrow> \<exists>f rest. t = f @ rest \<and> k = length f \<and> frag f r"
  shows "replaces frag s (gsub m s)"
proof (induction s rule: length_induct)
  case (1 s)
  have tail: "replaces frag s (case s of [] \<Rightarrow> [] | c # cs \<Rightarrow> c # gsub m cs)"
  proof (cases s)
    case Nil
    then show ?thesis by (simp add: keep_end)
  next
    case (Cons c cs)
    then have "replaces frag cs (gsub m cs)" using 1 by simp
    then show ?thesis using Cons by (simp add: keep_unit)
  qed
  show ?case
  proof (cases "m s")
    case None
    then show ?thesis using tail by (simp add: gsub.simps [of m s])
  next
    case (Some rk)
    obtain r k where rk: "rk = (r, k)" by (cases rk)
    from frag [of s r k] Some rk obtain f rest
      where s: "s = f @ rest" and k: "k = length f" and fr: "frag f r" by auto
    show ?thesis
    proof (cases "k = 0 \<or> s = []")
      case True
      then have "f = []" using s k by auto
      then have "replaces frag s (r @ (case s of [] \<Rightarrow> [] | c # cs \<Rightarrow> c # gsub m cs))"
        using replace_fragment [of frag f r, OF fr tail] by simp
      then show ?thesis using True Some rk by (simp add: gsub.simps [of m s])
    next
      case False
      then have "length rest < length s" using s k by simp
      then have "replaces frag rest (gsub m rest)" using 1 by simp
      then have "replaces frag (f @ rest) (r @ gsub m rest)"
        by (rule replace_fragment [of frag f r, OF fr])
      then have step: "replaces frag s (r @ gsub m rest)"
        using s by simp
      have rest: "drop k s = rest" using s k by simp
      have "gsub m s = r @ gsub m (drop k s)"
        using False Some rk by (simp add: gsub.simps [of m s])
      then show ?thesis using step by (simp only: rest)
    qed
  qed
qed

lemma close_bold_Some: "close_bold s = Some g \<Longrightarrow> \<exists>rest. s = g @ stars @ rest"
proof (induction s arbitrary: g)
  case Nil
  then show ?case by simp
next
  case (Cons c cs)
  show ?case
  proof (cases "starts_with (c # cs) stars")
    case True
    with Cons.prems have "g = []" by simp
    with starts_with_split [OF True] show ?thesis by auto
  next
    case False
    with Cons.prems obtain g' where g': "close_bold cs = Some g'" and g: "g = c # g'"
      by (auto split: if_splits)
    from Cons.IH [OF g'] obtain rest where "cs = g' @ stars @ rest" ..
    with g show ?thesis by simp
  qed
qed

lemma length_stars: "length stars = 2"
  by (simp add: stars_def)

lemma match_bold_Some:
  "match_bold t = Some (r, k) \<Longrightarrow> \<exists>f rest. t = f @ rest \<and> k = length f \<and> bold_fragment f r"
proof -
  assume m: "match_bold t = Some (r, k)"
  then have sw: "starts_with t stars"
    by (auto simp add: match_bold_def split: if_splits)
  with m obtain g where g: "close_bold (drop 2 t) = Some g"
    and r: "r = strong_open @ g @ strong_close" and k: "k = 4 + length g"
    by (auto simp add: match_bold_def split: option.splits)
  from close_bold_Some [OF g] obtain rest where rest: "drop 2 t = g @ stars @ rest" ..
  from starts_with_split [OF sw] rest have "t = (stars @ g @ stars) @ rest"
    by (simp add: length_stars)
  moreover have "k = length (stars @ g @ stars)"
    using k by (simp add: length_stars)
  moreover have "bold_fragment (stars @ g @ stars) r"
    using r by (auto simp add: bold_fragment_def)
  ultimately show ?thesis by blast
qed

lemma is_space_not_rbracket: "is_space c \<Longrightarrow> c \<noteq> rbracket"
  by (auto simp add: is_space_def is_white_space_def is_line_terminator_def rbracket_def)

lemma dropWhile_rbracket:
  "dropWhile (\<lambda>c. c \<noteq> rbracket) s \<noteq> [] \<Longrightarrow>
   \<exists>rest. dropWhile (\<lambda>c. c \<noteq> rbracket) s = js '']'' @ rest"
proof -
  assume ne: "dropWhile (\<lambda>c. c \<noteq> rbracket) s \<noteq> []"
  then obtain x xs where eq: "dropWhile (\<lambda>c. c \<noteq> rbracket) s = x # xs"
    by (metis neq_Nil_conv)
  have "\<not> x \<noteq> rbracket"
    using hd_dropWhile [OF ne] eq by (metis list.sel(1))
  then have "x # xs = js '']'' @ xs"
    by (simp add: js_def rbracket_def)
  with eq show ?thesis by metis
qed

lemma cite_name_Some:
  "cite_name s = Some g1 \<Longrightarrow> (g1 = bible \<or> g1 = biaobu) \<and> starts_with s g1"
  by (auto simp add: cite_name_def split: if_splits)

lemma cite_tail_Some:
  assumes "cite_tail g1 s = Some (r, k)"
  shows "\<exists>ws g2 rest. s = ws @ g2 @ js '']'' @ rest
           \<and> k = length g1 + length ws + length g2 + 3
           \<and> r = cite_replacement g1 g2
           \<and> list_all is_space ws \<and> g2 \<noteq> [] \<and> rbracket \<notin> set g2"
proof -
  define ws where "ws = takeWhile is_space s"
  define s' where "s' = dropWhile is_space s"
  define g2 where "g2 = takeWhile (\<lambda>c. c \<noteq> rbracket) s'"
  define s'' where "s'' = dropWhile (\<lambda>c. c \<noteq> rbracket) s'"
  have body: "(if s'' = [] then None
       else if g2 \<noteq> [] then
         Some (cite_replacement g1 g2, length g1 + length ws + length g2 + 3)
       else if ws = [] then None
       else Some (cite_replacement g1 [last ws], length g1 + length ws + 3)) = Some (r, k)"
    using assms unfolding cite_tail_def Let_def ws_def s'_def g2_def s''_def .
  then have ne: "s'' \<noteq> []"
    by (auto split: if_splits)
  have s: "s = ws @ s'"
    by (simp add: ws_def s'_def)
  have s': "s' = g2 @ s''"
    by (simp add: g2_def s''_def)
  from ne obtain rest where rest: "s'' = js '']'' @ rest"
    using dropWhile_rbracket [of s'] unfolding s''_def by blast
  have spaces: "list_all is_space ws"
    unfolding ws_def list_all_iff by (auto dest: set_takeWhileD)
  have free: "rbracket \<notin> set g2"
    unfolding g2_def by (auto dest: set_takeWhileD)
  show ?thesis
  proof (cases "g2 = []")
    case False
    with body ne have "r = cite_replacement g1 g2"
      and "k = length g1 + length ws + length g2 + 3"
      by simp_all
    moreover have "s = ws @ g2 @ js '']'' @ rest"
      by (simp add: s s' rest)
    ultimately show ?thesis using spaces False free by blast
  next
    case True
    with body ne have ws: "ws \<noteq> []" and r: "r = cite_replacement g1 [last ws]"
      and k: "k = length g1 + length ws + 3"
      by (auto split: if_splits)
    have "is_space (last ws)"
      using spaces ws by (simp add: list_all_iff)
    then have "last ws \<noteq> rbracket"
      by (rule is_space_not_rbracket)
    then have free': "rbracket \<notin> set [last ws]"
      by simp
    have spaces': "list_all is_space (butlast ws)"
      using spaces by (auto simp add: list_all_iff dest: in_set_butlastD)
    have "ws @ s' = butlast ws @ [last ws] @ js '']'' @ rest"
      using ws True by (simp add: s' rest)
    then have "s = butlast ws @ [last ws] @ js '']'' @ rest"
      by (simp only: s)
    moreover have "k = length g1 + length (butlast ws) + length [last ws] + 3"
      using k ws by simp
    moreover have "[last ws] \<noteq> []" by simp
    ultimately show ?thesis using r spaces' free' by blast
  qed
qed

lemma match_cite_Some:
  "match_cite t = Some (r, k) \<Longrightarrow> \<exists>f rest. t = f @ rest \<and> k = length f \<and> cite_fragment f r"
proof -
  assume m: "match_cite t = Some (r, k)"
  have len1: "length (js ''['') = 1" "length (js '','') = 1" "length (js '']'') = 1"
    by (simp_all add: js_def)
  have sw1: "starts_with t (js ''['')"
    using m by (auto simp add: match_cite_def split: if_splits)
  with m obtain g1 where name: "cite_name (drop 1 t) = Some g1"
    by (cases "cite_name (drop 1 t)") (simp_all add: match_cite_def)
  define s2 where "s2 = drop (length g1) (drop 1 t)"
  from m sw1 name have sw3: "starts_with s2 (js '','')"
    and tail: "cite_tail g1 (drop 1 s2) = Some (r, k)"
    by (auto simp add: match_cite_def Let_def s2_def split: if_splits)
  from cite_name_Some [OF name] have g1: "g1 = bible \<or> g1 = biaobu"
    and sw2: "starts_with (drop 1 t) g1"
    by simp_all
  have t: "t = js ''['' @ drop 1 t"
    using starts_with_split [OF sw1] by (simp add: len1)
  have s1: "drop 1 t = g1 @ s2"
    using starts_with_split [OF sw2] by (simp add: s2_def)
  have s2: "s2 = js '','' @ drop 1 s2"
    using starts_with_split [OF sw3] by (simp add: len1)
  from cite_tail_Some [OF tail] obtain ws g2 rest
    where s3: "drop 1 s2 = ws @ g2 @ js '']'' @ rest"
      and k: "k = length g1 + length ws + length g2 + 3"
      and r: "r = cite_replacement g1 g2"
      and props: "list_all is_space ws" "g2 \<noteq> []" "rbracket \<notin> set g2"
    by blast
  have "t = js ''['' @ g1 @ js '','' @ ws @ g2 @ js '']'' @ rest"
    using t s1 s2 s3 by metis
  then have "t = (js ''['' @ g1 @ js '','' @ ws @ g2 @ js '']'') @ rest"
    by simp
  moreover have "k = length (js ''['' @ g1 @ js '','' @ ws @ g2 @ js '']'')"
    using k by (simp add: len1)
  moreover have "cite_fragment (js ''['' @ g1 @ js '','' @ ws @ g2 @ js '']'') r"
    unfolding cite_fragment_def using g1 r props by blast
  ultimately show ?thesis by blast
qed

lemma no_bold_match:
  assumes "\<not> has_fragment stars stars s"
  shows "match_bold (drop n s) = None"
proof (rule ccontr)
  assume "match_bold (drop n s) \<noteq> None"
  then obtain r k where "match_bold (drop n s) = Some (r, k)" by auto
  from match_bold_Some [OF this] obtain f rest
    where d: "drop n s = f @ rest" and "bold_fragment f r" by blast
  then obtain g where "f = stars @ g @ stars"
    by (auto simp add: bold_fragment_def)
  with d have "take n s @ drop n s = take n s @ stars @ g @ stars @ rest" by simp
  then have "s = take n s @ stars @ g @ stars @ rest" by simp
  then have "has_fragment stars stars s"
    unfolding has_fragment_def by blast
  with assms show False ..
qed

lemma no_cite_match:
  assumes "\<not> has_fragment (js ''['' @ bible @ js '','') (js '']'') s"
    and "\<not> has_fragment (js ''['' @ biaobu @ js '','') (js '']'') s"
  shows "match_cite (drop n s) = None"
proof (rule ccontr)
  assume "match_cite (drop n s) \<noteq> None"
  then obtain r k where "match_cite (drop n s) = Some (r, k)" by auto
  from match_cite_Some [OF this] obtain f rest
    where d: "drop n s = f @ rest" and "cite_fragment f r" by blast
  then obtain g1 ws g2 where g1: "g1 = bible \<or> g1 = biaobu"
    and f: "f = js ''['' @ g1 @ js '','' @ ws @ g2 @ js '']''"
    by (auto simp add: cite_fragment_def)
  from d f have "take n s @ drop n s
      = take n s @ (js ''['' @ g1 @ js '','') @ (ws @ g2) @ js '']'' @ rest"
    by simp
  then have "s = take n s @ (js ''['' @ g1 @ js '','') @ (ws @ g2) @ js '']'' @ rest"
    by simp
  then have "has_fragment (js ''['' @ g1 @ js '','') (js '']'') s"
    unfolding has_fragment_def by blast
  with g1 assms show False by auto
qed

text \<open>
  C9. \<open>formatContent\<close> is a function of its input alone. It is the identity on every
  input that holds no \<^verbatim>\<open>**...**\<close> pair and no bracket fragment \<^verbatim>\<open>[Bible,...]\<close> or
  \<^verbatim>\<open>[BIAOBU,...]\<close>. On every input, the first pass replaces \<^verbatim>\<open>**g**\<close> fragments and
  copies every code unit outside them, and the second pass replaces bracket fragments
  of the first pass's output and copies every code unit outside them.
\<close>

theorem formatContent_preserves:
  "(\<not> has_fragment stars stars text
      \<and> \<not> has_fragment (js ''['' @ bible @ js '','') (js '']'') text
      \<and> \<not> has_fragment (js ''['' @ biaobu @ js '','') (js '']'') text
      \<longrightarrow> formatContent text = text)
   \<and> replaces bold_fragment text (gsub match_bold text)
   \<and> replaces cite_fragment (gsub match_bold text) (formatContent text)"
proof -
  have "formatContent text = text"
    if "\<not> has_fragment stars stars text"
      and "\<not> has_fragment (js ''['' @ bible @ js '','') (js '']'') text"
      and "\<not> has_fragment (js ''['' @ biaobu @ js '','') (js '']'') text"
  proof -
    have "gsub match_bold text = text"
      by (rule gsub_no_match) (rule no_bold_match [OF that(1)])
    moreover have "gsub match_cite text = text"
      by (rule gsub_no_match) (rule no_cite_match [OF that(2,3)])
    ultimately show ?thesis by (simp add: formatContent_def)
  qed
  moreover have "replaces bold_fragment text (gsub match_bold text)"
    by (rule gsub_replaces) (rule match_bold_Some)
  moreover have "replaces cite_fragment (gsub match_bold text) (formatContent text)"
    unfolding formatContent_def by (rule gsub_replaces) (rule match_cite_Some)
  ultimately show ?thesis by blast
qed

lemma formatContent_sample:
  "formatContent (js ''**Hi** see [Bible,John 3:16]'')
     = js ''<strong class=\"text-gold-300\">Hi</strong> see <span class=\"text-gold-300 font-medium\">[Bible, John 3:16]</span>''"
  by code_simp

lemma formatContent_sample_backtrack:
  "formatContent (js ''[Bible, ] [Bible,]'')
     = js ''<span class=\"text-gold-300 font-medium\">[Bible,  ]</span> [Bible,]''"
  by code_simp

lemma formatContent_sample_newline:
  "formatContent (js ''**a'' @ [0x0A] @ js ''b**'') = js ''**a'' @ [0x0A] @ js ''b**''"
  by code_simp

lemma sample_plain:
  "\<not> find_fragment stars stars (js ''Peace [1] *'')"
  "\<not> find_fragment (js ''['' @ bible @ js '','') (js '']'') (js ''Peace [1] *'')"
  "\<not> find_fragment (js ''['' @ biaobu @ js '','') (js '']'') (js ''Peace [1] *'')"
  by code_simp+

theorem formatContent_preserves_witness:
  "\<not> has_fragment stars stars (js ''Peace [1] *'')
   \<and> \<not> has_fragment (js ''['' @ bible @ js '','') (js '']'') (js ''Peace [1] *'')
   \<and> \<not> has_fragment (js ''['' @ biaobu @ js '','') (js '']'') (js ''Peace [1] *'')
   \<and> formatContent (js ''Peace [1] *'') = js ''Peace [1] *''"
  using formatContent_preserves [of "js ''Peace [1] *''"] sample_plain has_fragment_find
  by blast

section \<open>Properties that rest on the engine's contract\<close>

lemma getOrCreate_unknown:
  "\<not> known store sid \<Longrightarrow>
   getOrCreate store sid prefs now =
     ((next_id store,
       \<lparr>turns = [], session_preferences = prefs, created_at = now, last_active_at = now\<rparr>),
      store\<lparr>sessions := (sessions store)(next_id store \<mapsto>
               \<lparr>turns = [], session_preferences = prefs, created_at = now,
                last_active_at = now\<rparr>),
            next_id := Suc (next_id store)\<rparr>)"
  by (auto simp add: known_def getOrCreate_def Let_def split: option.splits)

lemma ChatMessage_no_sources:
  "role m = Assistant \<Longrightarrow> sources m = None \<or> sources m = Some [] \<Longrightarrow>
   ChatMessage m = BotBubble (formatContent (content m)) None"
  by (auto simp add: ChatMessage_def)

lemma sample_store_eq:
  "sample_store =
     \<lparr>sessions = [0 \<mapsto> \<lparr>turns = [], session_preferences = initial_preferences,
                          created_at = 3, last_active_at = 3\<rparr>],
      next_id = Suc 0\<rparr>"
  by (simp add: sample_store_def getOrCreate_def empty_store_def Let_def)

lemma history_appendTurn:
  "sessions store k \<noteq> None \<Longrightarrow> history (appendTurn store k turn) k = history store k @ [turn]"
  by (auto simp add: history_def appendTurn_def)

lemma sessions_appendTurn:
  "sessions store k \<noteq> None \<Longrightarrow> sessions (appendTurn store k turn) k \<noteq> None"
  by (auto simp add: appendTurn_def)

lemma getOrCreate_session:
  "getOrCreate store sid prefs now = ((k, s), store1) \<Longrightarrow>
   sessions store1 k = Some s"
  by (auto simp add: getOrCreate_def Let_def split: option.splits)

lemma getOrCreate_known:
  "sessions store k = Some s \<Longrightarrow> getOrCreate store (Some k) prefs now = ((k, s), store)"
  by (simp add: getOrCreate_def)

lemma getOrCreate_unknown_history:
  "\<not> known store sid \<Longrightarrow> getOrCreate store sid prefs now = ((k, s), store1) \<Longrightarrow>
   history store1 k = []"
  by (auto simp add: getOrCreate_unknown history_def)

lemma recent_window_all: "length ts \<le> window \<Longrightarrow> recent_window window ts = ts"
  by (simp add: recent_window_def)

lemma engine_exchange_history:
  assumes "engine_exchange window threshold generate store sid prefs text candidates now
             = (request, k, answer, store')"
  shows "\<exists>prior. gen_history request = recent_window window prior
           \<and> gen_message request = text
           \<and> (\<not> known store sid \<longrightarrow> prior = [])
           \<and> (\<forall>j. sid = Some j \<and> known store sid \<longrightarrow> k = j \<and> prior = history store j)
           \<and> answer = generate request
           \<and> history store' k
               = prior @ [user_turn text now,
                          assistant_turn answer (mode_router threshold candidates)
                            (attached_sources (mode_router threshold candidates) candidates)
                            now]"
proof -
  obtain k0 s store1 where g: "getOrCreate store sid prefs now = ((k0, s), store1)"
    by (metis prod.exhaust)
  have in1: "sessions store1 k0 \<noteq> None"
    using getOrCreate_session [OF g] by simp
  have parts: "k = k0
      \<and> request = \<lparr>gen_mode = mode_router threshold candidates,
        gen_passages = attached_sources (mode_router threshold candidates) candidates,
        gen_history = recent_window window (history store1 k0), gen_message = text\<rparr>
      \<and> answer = generate request
      \<and> store' = appendTurn (appendTurn store1 k0 (user_turn text now)) k0
          (assistant_turn answer (mode_router threshold candidates)
             (attached_sources (mode_router threshold candidates) candidates) now)"
    using assms by (auto simp add: engine_exchange_def g Let_def)
  then have k: "k = k0"
    and req: "request = \<lparr>gen_mode = mode_router threshold candidates,
        gen_passages = attached_sources (mode_router threshold candidates) candidates,
        gen_history = recent_window window (history store1 k0), gen_message = text\<rparr>"
    and ans: "answer = generate request"
    and st: "store' = appendTurn (appendTurn store1 k0 (user_turn text now)) k0
          (assistant_turn answer (mode_router threshold candidates)
             (attached_sources (mode_router threshold candidates) candidates) now)"
    by blast+
  have h: "history store' k0 = history store1 k0 @ [user_turn text now,
      assistant_turn answer (mode_router threshold candidates)
         (attached_sources (mode_router threshold candidates) candidates) now]"
    unfolding st
    by (simp add: history_appendTurn sessions_appendTurn in1)
  have unk: "\<not> known store sid \<longrightarrow> history store1 k0 = []"
    using getOrCreate_unknown_history [OF _ g] by blast
  have kn: "\<forall>j. sid = Some j \<and> known store sid \<longrightarrow> k0 = j \<and> history store1 k0 = history store j"
  proof (intro allI impI)
    fix j assume a: "sid = Some j \<and> known store sid"
    then obtain s' where s': "sessions store j = Some s'"
      by (auto simp add: known_def)
    from getOrCreate_known [OF s', of prefs now] g a
    have "k0 = j" and "store1 = store" by simp_all
    then show "k0 = j \<and> history store1 k0 = history store j" by simp
  qed
  show ?thesis
    using req ans h unk kn k by (intro exI [of _ "history store1 k0"]) simp
qed

lemma history_known: "history store k \<noteq> [] \<Longrightarrow> known store (Some k)"
  by (auto simp add: history_def known_def split: option.splits)

lemma engine_two_exchanges:
  assumes first: "engine_exchange window thr generate store sid prefs q1 cands1 now1
                    = (g1, k, a1, store1)"
    and new: "\<not> known store sid"
    and second: "engine_exchange window thr generate store1 (Some k) prefs' q2 cands2 now2
                    = (g2, k2, a2, store2)"
  shows "let u1 = user_turn q1 now1;
             b1 = assistant_turn a1 (mode_router thr cands1)
                    (attached_sources (mode_router thr cands1) cands1) now1;
             u2 = user_turn q2 now2;
             b2 = assistant_turn a2 (mode_router thr cands2)
                    (attached_sources (mode_router thr cands2) cands2) now2
         in k2 = k
            \<and> gen_history g1 = []
            \<and> history store1 k = [u1, b1]
            \<and> gen_history g2 = recent_window window [u1, b1]
            \<and> (2 \<le> window \<longrightarrow> gen_history g2 = [u1, b1])
            \<and> gen_message g2 = q2
            \<and> history store2 k = [u1, b1, u2, b2]
            \<and> length (history store2 k) = 4
            \<and> map role (history store2 k) = [User, Assistant, User, Assistant]"
proof -
  from engine_exchange_history [OF first] new
  have h1: "history store1 k = [user_turn q1 now1,
        assistant_turn a1 (mode_router thr cands1)
          (attached_sources (mode_router thr cands1) cands1) now1]"
    and gh1: "gen_history g1 = []"
    by (auto simp add: recent_window_def)
  have kn: "known store1 (Some k)"
    by (rule history_known) (simp add: h1)
  from engine_exchange_history [OF second] kn
  have k2: "k2 = k"
    and gh2: "gen_history g2 = recent_window window (history store1 k)"
    and gm2: "gen_message g2 = q2"
    and h2: "history store2 k2 = history store1 k @ [user_turn q2 now2,
        assistant_turn a2 (mode_router thr cands2)
          (attached_sources (mode_router thr cands2) cands2) now2]"
    by auto
  show ?thesis
    unfolding Let_def
    using gh1 h1 k2 gh2 gm2 h2
    by (simp add: recent_window_all) (simp add: user_turn_def assistant_turn_def)
qed

text \<open>
  C2. The retrieval mode reported with an answer is one of exactly two values. The
  Mode Router has two output states, grounded and ungrounded, written \<^verbatim>\<open>rag\<close> and
  \<^verbatim>\<open>conversational\<close> in the response: the response of the engine carries one of
  the two, they differ, it is \<^verbatim>\<open>rag\<close> exactly when there is a Candidate and the
  confidence reaches the threshold and \<^verbatim>\<open>conversational\<close> exactly otherwise, and the
  assistant message that \<open>handleSend\<close> appends carries the mode of the response as it
  came.
\<close>

theorem retrieval_mode_two_valued:
  "(res_retrieval_mode (assemble_response threshold candidates answer sid lang mdl use) = rag
      \<or> res_retrieval_mode (assemble_response threshold candidates answer sid lang mdl use)
          = conversational)
   \<and> rag \<noteq> conversational
   \<and> (res_retrieval_mode (assemble_response threshold candidates answer sid lang mdl use) = rag
        \<longleftrightarrow> candidates \<noteq> [] \<and> threshold \<le> confidence candidates)
   \<and> (res_retrieval_mode (assemble_response threshold candidates answer sid lang mdl use)
          = conversational
        \<longleftrightarrow> candidates = [] \<or> confidence candidates < threshold)
   \<and> retrieval_mode (last (messages (handleSend_settle fresh st
         (Inr (assemble_response threshold candidates answer sid lang mdl use)))))
       = Some (mode_wire (mode_router threshold candidates))
   \<and> retrieval_mode (last (messages (handleSend_settle fresh st (Inr r))))
       = Some (res_retrieval_mode r)"
proof -
  have ne: "rag \<noteq> conversational"
    by (simp add: rag_def conversational_def js_def)
  show ?thesis
    using ne
    by (auto simp add: assemble_response_def mode_router_def handleSend_settle_def Let_def)
qed

theorem retrieval_mode_two_valued_witness:
  "res_retrieval_mode (assemble_response (1 / 4) [sample_candidate] (js ''Grace'')
       (js ''s-1'') (js ''en'') (js ''m'') \<lparr>input_tokens = 1, output_tokens = 1\<rparr>)
     = conversational
   \<and> res_retrieval_mode (assemble_response (1 / 20) [sample_candidate] (js ''Grace'')
       (js ''s-1'') (js ''en'') (js ''m'') \<lparr>input_tokens = 1, output_tokens = 1\<rparr>)
     = rag
   \<and> retrieval_mode (last (messages (handleSend_settle (js ''id-2'', 7) initial_state
       (Inr (sample_response (js ''Grace''))))))
     = Some conversational"
proof -
  have low: "confidence [sample_candidate] < 1 / 4"
    by (simp add: sample_candidate_def)
  have high: "(1 / 20 :: real) \<le> confidence [sample_candidate]"
    by (simp add: sample_candidate_def)
  have mode: "res_retrieval_mode (sample_response (js ''Grace'')) = conversational"
    by (simp add: sample_response_def)
  show ?thesis
    using retrieval_mode_two_valued [of "1 / 4" "[sample_candidate]" "js ''Grace''"
        "js ''s-1''" "js ''en''" "js ''m''" "\<lparr>input_tokens = 1, output_tokens = 1\<rparr>"
        "(js ''id-2'', 7)" initial_state "sample_response (js ''Grace'')"]
      retrieval_mode_two_valued [of "1 / 20" "[sample_candidate]" "js ''Grace''"
        "js ''s-1''" "js ''en''" "js ''m''" "\<lparr>input_tokens = 1, output_tokens = 1\<rparr>"
        "(js ''id-2'', 7)" initial_state "sample_response (js ''Grace'')"]
      low high mode
    by simp
qed

text \<open>
  C6. The history is append-only and in chronological order. On the page, every call
  of \<open>handleSend\<close> keeps the earlier messages as a prefix, a successful exchange appends
  exactly the user turn and then the assistant turn, two exchanges leave the four turns
  in the order user, assistant, user, assistant, and the second request carries the
  session id that the first response returned. In the engine, two exchanges in one
  session leave a history of four turns in that order, and the history of the second
  generation request is the recent window of the two prior turns: both of them when the
  window holds at least two turns.
\<close>

theorem exchange_appends:
  assumes "trim text \<noteq> []" and "\<not> isLoading st"
    and "sendMessage fetch \<lparr>message = trim text, session_id = sessionId st,
                             req_preferences = preferences st\<rparr> = Inr r"
    and "trim text2 \<noteq> []"
    and "sendMessage fetch2 \<lparr>message = trim text2, session_id = Some (res_session_id r),
                             req_preferences = preferences st\<rparr> = Inr r2"
  shows "(\<exists>new. messages (handleSend fetch0 g g' st0 text0) = messages st0 @ new)
         \<and> (let user1 = \<lparr>message_id = fst f1, role = User, content = trim text,
                       timestamp = snd f1, sources = None, retrieval_mode = None\<rparr>;
             bot1 = \<lparr>message_id = fst f1', role = Assistant, content = response r,
                      timestamp = snd f1', sources = Some (res_sources r),
                      retrieval_mode = Some (res_retrieval_mode r)\<rparr>;
             user2 = \<lparr>message_id = fst f2, role = User, content = trim text2,
                       timestamp = snd f2, sources = None, retrieval_mode = None\<rparr>;
             bot2 = \<lparr>message_id = fst f2', role = Assistant, content = response r2,
                      timestamp = snd f2', sources = Some (res_sources r2),
                      retrieval_mode = Some (res_retrieval_mode r2)\<rparr>;
             st1 = handleSend fetch f1 f1' st text;
             st2 = handleSend fetch2 f2 f2' st1 text2
         in messages st1 = messages st @ [user1, bot1]
            \<and> messages (fst (handleSend_start f2 st1 text2))
                = messages st @ [user1, bot1, user2]
            \<and> snd (handleSend_start f2 st1 text2) =
                Some \<lparr>message = trim text2, session_id = Some (res_session_id r),
                      req_preferences = preferences st\<rparr>
            \<and> messages st2 = messages st @ [user1, bot1, user2, bot2]
            \<and> length (messages st2) = length (messages st) + 4
            \<and> map role (drop (length (messages st)) (messages st2))
                = [User, Assistant, User, Assistant])
         \<and> (engine_exchange window thr generate store sid prefs q1 cands1 now1
               = (g1, k, a1, store1)
             \<and> \<not> known store sid
             \<and> engine_exchange window thr generate store1 (Some k) prefs' q2 cands2 now2
               = (g2, k2, a2, store2)
             \<longrightarrow>
             (let u1 = user_turn q1 now1;
                  b1 = assistant_turn a1 (mode_router thr cands1)
                         (attached_sources (mode_router thr cands1) cands1) now1;
                  u2 = user_turn q2 now2;
                  b2 = assistant_turn a2 (mode_router thr cands2)
                         (attached_sources (mode_router thr cands2) cands2) now2
              in k2 = k
                 \<and> gen_history g1 = []
                 \<and> history store1 k = [u1, b1]
                 \<and> gen_history g2 = recent_window window [u1, b1]
                 \<and> (2 \<le> window \<longrightarrow> gen_history g2 = [u1, b1])
                 \<and> gen_message g2 = q2
                 \<and> history store2 k = [u1, b1, u2, b2]
                 \<and> length (history store2 k) = 4
                 \<and> map role (history store2 k) = [User, Assistant, User, Assistant]))"
  using client_exchange_appends [OF assms, of fetch0 g g' st0 text0 f1 f1' f2 f2']
    engine_two_exchanges [of window thr generate store sid prefs q1 cands1 now1 g1 k a1
      store1 prefs' q2 cands2 now2 g2 k2 a2 store2]
  by blast

lemma sample_first_answer: "fst (snd (snd sample_first)) = js ''Grace''"
  by (simp add: sample_first_def engine_exchange_def Let_def split_def sample_generate_def)

theorem exchange_appends_witness:
  "trim (js '' Hi '') \<noteq> [] \<and> \<not> isLoading initial_state
   \<and> length (messages
        (handleSend (server_answers (sample_response (js ''Peace''))) (js ''id-3'', 8)
           (js ''id-4'', 9)
           (handleSend (server_answers (sample_response (js ''Grace''))) (js ''id-1'', 5)
              (js ''id-2'', 7) initial_state (js '' Hi ''))
           (js '' Hi ''))) = 4
   \<and> map role (messages
        (handleSend (server_answers (sample_response (js ''Peace''))) (js ''id-3'', 8)
           (js ''id-4'', 9)
           (handleSend (server_answers (sample_response (js ''Grace''))) (js ''id-1'', 5)
              (js ''id-2'', 7) initial_state (js '' Hi ''))
           (js '' Hi ''))) = [User, Assistant, User, Assistant]
   \<and> map content (messages (fst (handleSend_start (js ''id-3'', 8)
           (handleSend (server_answers (sample_response (js ''Grace''))) (js ''id-1'', 5)
              (js ''id-2'', 7) initial_state (js '' Hi ''))
           (js '' Hi '')))) = [js ''Hi'', js ''Grace'', js ''Hi'']
   \<and> \<not> known empty_store None \<and> (2 :: nat) \<le> 10
   \<and> map content (gen_history (fst sample_second)) = [js ''Hi'', js ''Grace'']
   \<and> length (history (snd (snd (snd sample_second))) (fst (snd sample_first))) = 4
   \<and> map role (history (snd (snd (snd sample_second))) (fst (snd sample_first)))
       = [User, Assistant, User, Assistant]"
proof -
  have first: "engine_exchange 10 (1 / 4) sample_generate empty_store None
      initial_preferences (js ''Hi'') [sample_candidate] 3
      = (fst sample_first, fst (snd sample_first), fst (snd (snd sample_first)),
         snd (snd (snd sample_first)))"
    by (simp add: sample_first_def)
  have second: "engine_exchange 10 (1 / 4) sample_generate (snd (snd (snd sample_first)))
      (Some (fst (snd sample_first))) initial_preferences (js ''Why?'') [] 4
      = (fst sample_second, fst (snd sample_second), fst (snd (snd sample_second)),
         snd (snd (snd sample_second)))"
    by (simp add: sample_second_def)
  have new: "\<not> known empty_store None"
    by (simp add: known_def)
  show ?thesis
    using exchange_appends [of "js '' Hi ''" initial_state
        "server_answers (sample_response (js ''Grace''))" "sample_response (js ''Grace'')"
        "js '' Hi ''" "server_answers (sample_response (js ''Peace''))"
        "sample_response (js ''Peace'')" fetch_unreachable "(js ''id-1'', 5)"
        "(js ''id-2'', 7)" initial_state "js '' Hi ''" "(js ''id-1'', 5)" "(js ''id-2'', 7)"
        "(js ''id-3'', 8)" "(js ''id-4'', 9)"
        10 "1 / 4" sample_generate empty_store None initial_preferences "js ''Hi''"
        "[sample_candidate]" 3 "fst sample_first" "fst (snd sample_first)"
        "fst (snd (snd sample_first))" "snd (snd (snd sample_first))" initial_preferences
        "js ''Why?''" "[]" 4 "fst sample_second" "fst (snd sample_second)"
        "fst (snd (snd sample_second))" "snd (snd (snd sample_second))",
        OF trim_sample_nonempty initial_state_sel(2) sendMessage_server_answers
          trim_sample_nonempty sendMessage_server_answers]
      trim_sample_nonempty first second new
    by (simp add: Let_def initial_state_sel trim_sample sample_response_def
        sample_first_answer user_turn_def assistant_turn_def recent_window_def)
qed

text \<open>
  C5. A chat call whose session id is omitted or unknown is given a fresh session: in
  a well-formed store \<open>getOrCreate\<close> returns an id that was not in use, with a session
  that has no turns, stores it and leaves every other session alone; it has no error
  result. After a session has been deleted, a call with its id gets a new id, different
  from the deleted one, and an empty history. The client sends \<^verbatim>\<open>null\<close> on the first
  turn; after a response it holds the session id of that response and sends it with
  the next request.
\<close>

theorem fresh_session:
  "(store_ok store \<and> \<not> known store sid \<longrightarrow>
      (let ((k, s), store') = getOrCreate store sid prefs now
       in sessions store k = None \<and> turns s = [] \<and> sessions store' k = Some s
          \<and> store_ok store'
          \<and> (\<forall>j. j \<noteq> k \<longrightarrow> sessions store' j = sessions store j)))
   \<and> (store_ok store \<and> sessions store d \<noteq> None \<longrightarrow>
        \<not> known (delete_session store d) (Some d)
        \<and> fst (fst (getOrCreate (delete_session store d) (Some d) prefs now)) \<noteq> d
        \<and> turns (snd (fst (getOrCreate (delete_session store d) (Some d) prefs now))) = [])
   \<and> (trim text \<noteq> [] \<longrightarrow>
        map_option session_id (snd (handleSend_start fresh initial_state text)) = Some None)
   \<and> sessionId (handleSend_settle fresh' st (Inr r)) = Some (res_session_id r)
   \<and> (trim text \<noteq> [] \<longrightarrow>
        map_option session_id
          (snd (handleSend_start fresh (handleSend_settle fresh' st (Inr r)) text))
        = Some (Some (res_session_id r)))"
proof -
  have a: "store_ok store \<and> \<not> known store sid \<longrightarrow>
      (let ((k, s), store') = getOrCreate store sid prefs now
       in sessions store k = None \<and> turns s = [] \<and> sessions store' k = Some s
          \<and> store_ok store'
          \<and> (\<forall>j. j \<noteq> k \<longrightarrow> sessions store' j = sessions store j))"
    by (auto simp add: getOrCreate_unknown store_ok_def less_Suc_eq)
  have b: "store_ok store \<and> sessions store d \<noteq> None \<longrightarrow>
        \<not> known (delete_session store d) (Some d)
        \<and> fst (fst (getOrCreate (delete_session store d) (Some d) prefs now)) \<noteq> d
        \<and> turns (snd (fst (getOrCreate (delete_session store d) (Some d) prefs now))) = []"
  proof
    assume h: "store_ok store \<and> sessions store d \<noteq> None"
    have u: "\<not> known (delete_session store d) (Some d)"
      by (simp add: known_def delete_session_def)
    have "d < next_id store"
      using h by (simp add: store_ok_def)
    then show "\<not> known (delete_session store d) (Some d)
        \<and> fst (fst (getOrCreate (delete_session store d) (Some d) prefs now)) \<noteq> d
        \<and> turns (snd (fst (getOrCreate (delete_session store d) (Some d) prefs now))) = []"
      using u by (simp add: getOrCreate_unknown [OF u]) (simp add: delete_session_def)
  qed
  have c: "trim text \<noteq> [] \<longrightarrow>
        map_option session_id (snd (handleSend_start fresh initial_state text)) = Some None"
    by (simp add: handleSend_start_pass initial_state_sel)
  have d: "sessionId (handleSend_settle fresh' st (Inr r)) = Some (res_session_id r)"
    by (simp add: handleSend_settle_def Let_def)
  have e: "trim text \<noteq> [] \<longrightarrow>
        map_option session_id
          (snd (handleSend_start fresh (handleSend_settle fresh' st (Inr r)) text))
        = Some (Some (res_session_id r))"
    using handleSend_settle_not_loading [of fresh' st "Inr r"]
    by (simp add: handleSend_start_pass d)
  from a b c d e show ?thesis by blast
qed

theorem fresh_session_witness:
  "store_ok empty_store \<and> \<not> known empty_store None
   \<and> fst (getOrCreate empty_store None initial_preferences 3)
       = (0, \<lparr>turns = [], session_preferences = initial_preferences, created_at = 3,
               last_active_at = 3\<rparr>)
   \<and> store_ok sample_store \<and> sessions sample_store 0 \<noteq> None
   \<and> fst (fst (getOrCreate (delete_session sample_store 0) (Some 0) initial_preferences 4))
       \<noteq> 0
   \<and> turns (snd (fst (getOrCreate (delete_session sample_store 0) (Some 0)
        initial_preferences 4))) = []
   \<and> trim (js '' Hi '') \<noteq> []
   \<and> map_option session_id (snd (handleSend_start (js ''id-1'', 5) initial_state
        (js '' Hi ''))) = Some None
   \<and> map_option session_id (snd (handleSend_start (js ''id-1'', 5)
        (handleSend_settle (js ''id-2'', 7) initial_state
           (Inr (sample_response (js ''Grace'')))) (js '' Hi '')))
       = Some (Some (js ''s-1''))"
proof -
  have ok0: "store_ok empty_store"
    by (simp add: store_ok_def empty_store_def)
  have un0: "\<not> known empty_store None"
    by (simp add: known_def)
  have ok1: "store_ok sample_store"
    by (simp add: sample_store_eq store_ok_def)
  have in1: "sessions sample_store 0 \<noteq> None"
    by (simp add: sample_store_eq)
  have first: "fst (getOrCreate empty_store None initial_preferences 3)
       = (0, \<lparr>turns = [], session_preferences = initial_preferences, created_at = 3,
               last_active_at = 3\<rparr>)"
    by (simp add: getOrCreate_def empty_store_def Let_def)
  show ?thesis
    using fresh_session [of sample_store None initial_preferences 4 0 "js '' Hi ''"
        "(js ''id-1'', 5)" "(js ''id-2'', 7)" initial_state "sample_response (js ''Grace'')"]
      ok0 un0 ok1 in1 first trim_sample_nonempty
    by (simp add: sample_response_def)
qed

text \<open>
  C7. When the mode of a turn is ungrounded, the response carries that mode and zero
  sources, the assistant message that \<open>handleSend\<close> appends holds an empty source list,
  and \<open>ChatMessage\<close> renders no source list for it. The mode is ungrounded whenever
  every Candidate scores below the threshold. \<open>ChatMessage\<close> renders no source list
  for any assistant message whose sources are absent or empty.
\<close>

theorem ungrounded_no_sources:
  "(mode_router threshold candidates = Ungrounded \<longrightarrow>
      res_retrieval_mode (assemble_response threshold candidates answer sid lang mdl use)
        = conversational
      \<and> res_sources (assemble_response threshold candidates answer sid lang mdl use) = []
      \<and> sources (last (messages (handleSend_settle fresh st
           (Inr (assemble_response threshold candidates answer sid lang mdl use))))) = Some []
      \<and> ChatMessage (last (messages (handleSend_settle fresh st
           (Inr (assemble_response threshold candidates answer sid lang mdl use)))))
         = BotBubble (formatContent answer) None)
   \<and> (list_all (\<lambda>c. score c < threshold) candidates \<longrightarrow>
        mode_router threshold candidates = Ungrounded)
   \<and> (role m = Assistant \<and> (sources m = None \<or> sources m = Some []) \<longrightarrow>
        ChatMessage m = BotBubble (formatContent (content m)) None)"
proof -
  have conf: "cs \<noteq> [] \<Longrightarrow> list_all (\<lambda>c. score c < threshold) cs \<Longrightarrow>
      confidence cs < threshold" for cs
    by (induction cs rule: confidence.induct) simp_all
  have a: "mode_router threshold candidates = Ungrounded \<longrightarrow>
      res_retrieval_mode (assemble_response threshold candidates answer sid lang mdl use)
        = conversational
      \<and> res_sources (assemble_response threshold candidates answer sid lang mdl use) = []
      \<and> sources (last (messages (handleSend_settle fresh st
           (Inr (assemble_response threshold candidates answer sid lang mdl use))))) = Some []
      \<and> ChatMessage (last (messages (handleSend_settle fresh st
           (Inr (assemble_response threshold candidates answer sid lang mdl use)))))
         = BotBubble (formatContent answer) None"
    by (simp add: assemble_response_def attached_sources_def handleSend_settle_def Let_def
        ChatMessage_def)
  have b: "list_all (\<lambda>c. score c < threshold) candidates \<longrightarrow>
        mode_router threshold candidates = Ungrounded"
    using conf [of candidates] by (auto simp add: mode_router_def)
  have c: "role m = Assistant \<and> (sources m = None \<or> sources m = Some []) \<longrightarrow>
        ChatMessage m = BotBubble (formatContent (content m)) None"
    using ChatMessage_no_sources by blast
  from a b c show ?thesis by blast
qed

theorem ungrounded_no_sources_witness:
  "mode_router (1 / 4) [sample_candidate] = Ungrounded
   \<and> res_sources (assemble_response (1 / 4) [sample_candidate] (js ''Grace'') (js ''s-1'')
        (js ''en'') (js ''m'') \<lparr>input_tokens = 1, output_tokens = 1\<rparr>) = []
   \<and> ChatMessage (last (messages (handleSend_settle (js ''id-2'', 7) initial_state
        (Inr (assemble_response (1 / 4) [sample_candidate] (js ''Grace'') (js ''s-1'')
           (js ''en'') (js ''m'') \<lparr>input_tokens = 1, output_tokens = 1\<rparr>)))))
       = BotBubble (formatContent (js ''Grace'')) None"
proof -
  have low: "list_all (\<lambda>c. score c < 1 / 4) [sample_candidate]"
    by (simp add: sample_candidate_def)
  show ?thesis
    using ungrounded_no_sources [of "1 / 4" "[sample_candidate]" "js ''Grace''" "js ''s-1''"
        "js ''en''" "js ''m''" "\<lparr>input_tokens = 1, output_tokens = 1\<rparr>" "(js ''id-2'', 7)"
        initial_state] low
    by simp
qed

end
